theory Spec2Isabelle
  imports Complex_Main
begin

section \<open>Content validation and completeness scoring of the portfolio site\<close>

text \<open>
  The development embeds the validation module of the site, which the other files
  import as \<^verbatim>\<open>./contentValidation\<close> (the schemas, \<^verbatim>\<open>validateContentFile\<close>,
  \<^verbatim>\<open>validateCollection\<close>, \<^verbatim>\<open>validateAllContent\<close>, \<^verbatim>\<open>validateContentCompleteness\<close>; in the
  sources it follows the helper classes in \<^verbatim>\<open>src/utils/contentHelpers.ts\<close>), and the
  command-line script (\<^verbatim>\<open>runValidation\<close>, \<^verbatim>\<open>watchContent\<close>, \<^verbatim>\<open>main\<close>).

  The code talks to Node's \<^verbatim>\<open>fs\<close> and \<^verbatim>\<open>path\<close>, to gray-matter and to zod. What these
  libraries answer is the environment of a run: a record of functions, one per library
  call, each returning an exception where the library can raise. The zod schemas are
  data of the repository; they are embedded as values of a datatype of schemas and
  run by an interpreter that follows zod's synchronous parser.
\<close>

subsection \<open>Strings\<close>

text \<open>
  A \<^typ>\<open>string\<close> stands for a JavaScript string, one \<^typ>\<open>char\<close> per code unit, so
  \<^const>\<open>length\<close> is \<^verbatim>\<open>.length\<close>.
\<close>

definition endsWith :: "string \<Rightarrow> string \<Rightarrow> bool" where
  "endsWith s t = (length t \<le> length s \<and> drop (length s - length t) s = t)"

definition startsWith :: "string \<Rightarrow> string \<Rightarrow> bool" where
  "startsWith s t = (take (length t) s = t)"

text \<open>
  \<^verbatim>\<open>String.prototype.trim\<close> strips white space and line terminators at both ends.
  Of these, the ones a one-byte code unit can hold are tab, line feed, vertical tab,
  form feed, carriage return, space and the no-break space.
\<close>

definition isWhiteSpace :: "char \<Rightarrow> bool" where
  "isWhiteSpace c = (c \<in> set [char_of (9::nat), char_of (10::nat), char_of (11::nat),
     char_of (12::nat), char_of (13::nat), char_of (32::nat), char_of (160::nat)])"

definition trim :: "string \<Rightarrow> string" where
  "trim s = rev (dropWhile isWhiteSpace (rev (dropWhile isWhiteSpace s)))"

fun string_of_nat :: "nat \<Rightarrow> string" where
  "string_of_nat n =
     (if n < 10 then [char_of (48 + n)]
      else string_of_nat (n div 10) @ [char_of (48 + n mod 10)])"

declare string_of_nat.simps [simp del]

text \<open>\<^verbatim>\<open>name.charAt(0).toUpperCase() + name.slice(1)\<close>, on the ASCII letters.\<close>

definition toUpperCase_char :: "char \<Rightarrow> char" where
  "toUpperCase_char c =
     (if 97 \<le> (of_char c :: nat) \<and> (of_char c :: nat) \<le> 122
      then char_of ((of_char c :: nat) - 32) else c)"

definition capitalize :: "string \<Rightarrow> string" where
  "capitalize name =
     (case name of [] \<Rightarrow> [] | c # cs \<Rightarrow> toUpperCase_char c # cs)"

subsection \<open>Values of the front-matter\<close>

text \<open>
  A JavaScript number is a finite value, an infinity or NaN. Finite doubles are
  taken as the reals they denote.
\<close>

datatype jsnum = Fin real | PosInf | NegInf | NaN

fun num_lt :: "jsnum \<Rightarrow> jsnum \<Rightarrow> bool" where
  "num_lt NaN _ = False"
| "num_lt _ NaN = False"
| "num_lt (Fin a) (Fin b) = (a < b)"
| "num_lt NegInf NegInf = False"
| "num_lt NegInf _ = True"
| "num_lt _ NegInf = False"
| "num_lt PosInf _ = False"
| "num_lt (Fin a) PosInf = True"

fun num_ge :: "jsnum \<Rightarrow> jsnum \<Rightarrow> bool" where
  "num_ge NaN _ = False"
| "num_ge _ NaN = False"
| "num_ge a b = (\<not> num_lt a b)"

text \<open>
  What gray-matter (js-yaml) hands over as \<^verbatim>\<open>data\<close>, and what a property read of it
  gives: \<^verbatim>\<open>undefined\<close>, \<^verbatim>\<open>null\<close>, booleans, numbers, strings, dates (only their time
  value is kept), arrays and plain objects. An object is the list of its own
  properties; a read takes the first entry of a key.
\<close>

datatype yaml =
    YUndefined
  | YNull
  | YBool bool
  | YNum jsnum
  | YStr string
  | YDate real
  | YArr "yaml list"
  | YObj "(string \<times> yaml) list"

text \<open>An exception is an \<^verbatim>\<open>Error\<close> instance; what the code reads of it is its message.\<close>

datatype exn = JsError (error_message: string)

text \<open>JavaScript's ToBoolean.\<close>

fun truthy :: "yaml \<Rightarrow> bool" where
  "truthy YUndefined = False"
| "truthy YNull = False"
| "truthy (YBool b) = b"
| "truthy (YNum n) = (n \<noteq> NaN \<and> n \<noteq> Fin 0)"
| "truthy (YStr s) = (s \<noteq> [])"
| "truthy (YDate t) = True"
| "truthy (YArr xs) = True"
| "truthy (YObj kvs) = True"

definition own_property :: "(string \<times> yaml) list \<Rightarrow> string \<Rightarrow> yaml" where
  "own_property kvs k = (case map_of kvs k of None \<Rightarrow> YUndefined | Some v \<Rightarrow> v)"

text \<open>
  The read \<^verbatim>\<open>v.k\<close> of a property \<^verbatim>\<open>k\<close>. It raises a TypeError on \<^verbatim>\<open>null\<close> and
  \<^verbatim>\<open>undefined\<close>. The keys the code reads are among \<^verbatim>\<open>image\<close>, \<^verbatim>\<open>logo\<close>, \<^verbatim>\<open>name\<close>, \<^verbatim>\<open>title\<close>,
  \<^verbatim>\<open>bio\<close>, \<^verbatim>\<open>email\<close>, \<^verbatim>\<open>profileImage\<close>, \<^verbatim>\<open>social\<close>, \<^verbatim>\<open>categories\<close>, \<^verbatim>\<open>skills\<close> and \<^verbatim>\<open>length\<close>;
  of these only \<^verbatim>\<open>length\<close> is a property that strings and arrays have themselves.
\<close>

definition typeError_read :: "string \<Rightarrow> string \<Rightarrow> exn" where
  "typeError_read what k =
     JsError (''Cannot read properties of '' @ what @ '' (reading '' @ [CHR 0x27] @ k @ [CHR 0x27] @ '')'')"

fun js_get :: "yaml \<Rightarrow> string \<Rightarrow> exn + yaml" where
  "js_get YUndefined k = Inl (typeError_read ''undefined'' k)"
| "js_get YNull k = Inl (typeError_read ''null'' k)"
| "js_get (YObj kvs) k = Inr (own_property kvs k)"
| "js_get (YStr s) k = Inr (if k = ''length'' then YNum (Fin (real (length s))) else YUndefined)"
| "js_get (YArr xs) k = Inr (if k = ''length'' then YNum (Fin (real (length xs))) else YUndefined)"
| "js_get _ k = Inr YUndefined"

subsection \<open>The environment of a run\<close>

text \<open>
  \<^item> \<open>cwd\<close> is \<^verbatim>\<open>process.cwd()\<close>: the working directory is taken as given;
  \<^item> \<open>path_join\<close> is \<^verbatim>\<open>path.join\<close> on strings;
  \<^item> \<open>existsSync\<close>, \<open>readFileSync\<close> (with \<^verbatim>\<open>'utf-8'\<close>) and \<open>readdirSync\<close> are those of \<^verbatim>\<open>fs\<close>;
    the first never raises;
  \<^item> \<open>fsWatch\<close> is \<^verbatim>\<open>fs.watch(dir, { recursive: true }, callback)\<close>: it installs the
    watcher or raises, as it does on a directory that is not there;
  \<^item> \<open>stripBom\<close> is the text without a byte order mark at its start, as gray-matter
    takes it;
  \<^item> \<open>parseMatter\<close> is what gray-matter makes of a text that it parses: the pair of
    \<^verbatim>\<open>data\<close> and \<^verbatim>\<open>content\<close>, or the exception of the YAML parser;
  \<^item> \<open>isEmail\<close> and \<open>isUrl\<close> are the two format tests of zod's string schema;
  \<^item> \<open>currentYear\<close> is \<^verbatim>\<open>new Date().getFullYear()\<close>;
  \<^item> \<open>toNumber\<close> is JavaScript's ToNumber on strings and objects, which the
    comparison \<^verbatim>\<open>>=\<close> applies to an operand that is not a number already.
\<close>

record env =
  cwd :: string
  path_join :: "string list \<Rightarrow> string"
  existsSync :: "string \<Rightarrow> bool"
  readFileSync :: "string \<Rightarrow> exn + string"
  readdirSync :: "string \<Rightarrow> exn + string list"
  fsWatch :: "string \<Rightarrow> exn + unit"
  stripBom :: "string \<Rightarrow> string"
  parseMatter :: "string \<Rightarrow> exn + (yaml \<times> string)"
  isEmail :: "string \<Rightarrow> bool"
  isUrl :: "string \<Rightarrow> bool"
  currentYear :: int
  toNumber :: "yaml \<Rightarrow> exn + jsnum"

text \<open>\<^verbatim>\<open>path.join(process.cwd(), 'src/content', name)\<close>, the directory of a collection.\<close>

definition contentPath :: "env \<Rightarrow> string \<Rightarrow> string" where
  "contentPath e name = path_join e [cwd e, ''src/content'', name]"

subsection \<open>gray-matter and its cache\<close>

text \<open>
  The code calls \<^verbatim>\<open>matter(text)\<close> without options. gray-matter then keeps, for the
  life of the process, a table \<^verbatim>\<open>matter.cache\<close> from texts to file objects, and looks
  a text up in it without its byte order mark:

  \<^item> the empty text gives empty data at once;
  \<^item> a text that is in the table gives a copy of the cached file object, and nothing
    is parsed;
  \<^item> any other text is entered into the table \<^emph>\<open>before\<close> it is parsed, with the file
    object that parsing then fills in. When the parser raises, the object stays as it
    was made: empty data, and the whole text as content. The exception leaves
    \<^verbatim>\<open>matter\<close>, and the next call with the same text finds that object.

  The table is a plain object, so the names of the properties of
  \<^verbatim>\<open>Object.prototype\<close> are found in it from the start, with a function (or the
  prototype itself) as their value. The copy of such a value has neither \<^verbatim>\<open>data\<close> nor
  \<^verbatim>\<open>content\<close>: both are \<^verbatim>\<open>undefined\<close>. The code only tests this \<^verbatim>\<open>content\<close> for being
  empty, which \<^verbatim>\<open>undefined\<close> and the empty string answer alike, so it is given as the
  empty string here.
\<close>

type_synonym matter_cache = "string \<rightharpoonup> (yaml \<times> string)"

definition objectPrototypeKeys :: "string list" where
  "objectPrototypeKeys =
     [''constructor'', ''__defineGetter__'', ''__defineSetter__'', ''hasOwnProperty'',
      ''__lookupGetter__'', ''__lookupSetter__'', ''isPrototypeOf'', ''propertyIsEnumerable'',
      ''toString'', ''valueOf'', ''__proto__'', ''toLocaleString'']"

definition matter ::
  "env \<Rightarrow> matter_cache \<Rightarrow> string \<Rightarrow> (exn + (yaml \<times> string)) \<times> matter_cache" where
  "matter e cache input =
     (if input = [] then (Inr (YObj [], []), cache)
      else
        (let stripped = stripBom e input
         in if stripped \<in> set objectPrototypeKeys then (Inr (YUndefined, []), cache)
            else (case cache stripped of
                    Some cached \<Rightarrow> (Inr cached, cache)
                  | None \<Rightarrow>
                      (case parseMatter e stripped of
                         Inl x \<Rightarrow> (Inl x, cache(stripped \<mapsto> (YObj [], stripped)))
                       | Inr parsed \<Rightarrow> (Inr parsed, cache(stripped \<mapsto> parsed))))))"

subsection \<open>Schemas and their interpreter\<close>

datatype path_elem = Key string | Index nat

datatype string_check =
    MinLength nat string
  | Email string
  | Url string

datatype number_check =
    NumMin real string
  | NumMax real string

text \<open>
  The schema constructors the repository uses. \<open>ZEnum\<close> carries the message of its
  \<^verbatim>\<open>errorMap\<close>, \<open>ZArray\<close> its \<^verbatim>\<open>.min(n, message)\<close> when there is one, \<open>ZDefault\<close> the
  default value.
\<close>

datatype schema =
    ZString "string_check list"
  | ZNumber "number_check list"
  | ZBoolean
  | ZEnum "string list" string
  | ZArray schema "(nat \<times> string) option"
  | ZObject "(string \<times> schema) list"
  | ZOptional schema
  | ZDefault schema yaml

text \<open>An issue of zod, with the two fields the validator reads.\<close>

record ZodIssue =
  issue_path :: "path_elem list"
  issue_message :: string

text \<open>zod's \<^verbatim>\<open>getParsedType\<close> and the message of its default error map for a wrong type.\<close>

fun parsedType :: "yaml \<Rightarrow> string" where
  "parsedType YUndefined = ''undefined''"
| "parsedType YNull = ''null''"
| "parsedType (YBool b) = ''boolean''"
| "parsedType (YNum n) = (if n = NaN then ''nan'' else ''number'')"
| "parsedType (YStr s) = ''string''"
| "parsedType (YDate t) = ''date''"
| "parsedType (YArr xs) = ''array''"
| "parsedType (YObj kvs) = ''object''"

definition invalid_type :: "path_elem list \<Rightarrow> string \<Rightarrow> yaml \<Rightarrow> ZodIssue" where
  "invalid_type p expected v =
     \<lparr>issue_path = p,
      issue_message = (if v = YUndefined then ''Required''
                       else ''Expected '' @ expected @ '', received '' @ parsedType v)\<rparr>"

fun check_string :: "env \<Rightarrow> path_elem list \<Rightarrow> string \<Rightarrow> string_check \<Rightarrow> ZodIssue list" where
  "check_string e p s (MinLength n msg) =
     (if length s < n then [\<lparr>issue_path = p, issue_message = msg\<rparr>] else [])"
| "check_string e p s (Email msg) =
     (if \<not> isEmail e s then [\<lparr>issue_path = p, issue_message = msg\<rparr>] else [])"
| "check_string e p s (Url msg) =
     (if \<not> isUrl e s then [\<lparr>issue_path = p, issue_message = msg\<rparr>] else [])"

fun check_number :: "path_elem list \<Rightarrow> jsnum \<Rightarrow> number_check \<Rightarrow> ZodIssue list" where
  "check_number p n (NumMin m msg) =
     (if num_lt n (Fin m) then [\<lparr>issue_path = p, issue_message = msg\<rparr>] else [])"
| "check_number p n (NumMax m msg) =
     (if num_lt (Fin m) n then [\<lparr>issue_path = p, issue_message = msg\<rparr>] else [])"

text \<open>
  The issues of \<^verbatim>\<open>schema._parse\<close> on a value at a path, in the order zod records them:
  a wrong type gives one issue and stops that schema; the checks of a string or a
  number all run; an array reports its length first, then its elements; an object
  parses the keys of its shape in order and ignores the others.
\<close>

fun zod_parse :: "env \<Rightarrow> schema \<Rightarrow> path_elem list \<Rightarrow> yaml \<Rightarrow> ZodIssue list" where
  "zod_parse e (ZString checks) p v =
     (case v of
        YStr s \<Rightarrow> concat (map (check_string e p s) checks)
      | _ \<Rightarrow> [invalid_type p ''string'' v])"
| "zod_parse e (ZNumber checks) p v =
     (case v of
        YNum n \<Rightarrow> (if n = NaN then [invalid_type p ''number'' v]
                   else concat (map (check_number p n) checks))
      | _ \<Rightarrow> [invalid_type p ''number'' v])"
| "zod_parse e ZBoolean p v =
     (case v of YBool b \<Rightarrow> [] | _ \<Rightarrow> [invalid_type p ''boolean'' v])"
| "zod_parse e (ZEnum values msg) p v =
     (case v of
        YStr s \<Rightarrow> (if s \<in> set values then [] else [\<lparr>issue_path = p, issue_message = msg\<rparr>])
      | _ \<Rightarrow> [\<lparr>issue_path = p, issue_message = msg\<rparr>])"
| "zod_parse e (ZArray element minLength) p v =
     (case v of
        YArr xs \<Rightarrow>
          (case minLength of
             None \<Rightarrow> []
           | Some (n, msg) \<Rightarrow>
               (if length xs < n then [\<lparr>issue_path = p, issue_message = msg\<rparr>] else []))
          @ concat (map (\<lambda>ix. zod_parse e element (p @ [Index (fst ix)]) (snd ix))
                        (enumerate 0 xs))
      | _ \<Rightarrow> [invalid_type p ''array'' v])"
| "zod_parse e (ZObject shape) p v =
     (case v of
        YObj kvs \<Rightarrow>
          concat (map (\<lambda>ks. zod_parse e (snd ks) (p @ [Key (fst ks)]) (own_property kvs (fst ks)))
                      shape)
      | _ \<Rightarrow> [invalid_type p ''object'' v])"
| "zod_parse e (ZOptional inner) p v =
     (if v = YUndefined then [] else zod_parse e inner p v)"
| "zod_parse e (ZDefault inner d) p v =
     zod_parse e inner p (if v = YUndefined then d else v)"

text \<open>\<^verbatim>\<open>schema.safeParse(data)\<close>: it succeeds when no issue was recorded.\<close>

definition safeParse :: "env \<Rightarrow> schema \<Rightarrow> yaml \<Rightarrow> ZodIssue list" where
  "safeParse e s data = zod_parse e s [] data"

text \<open>\<^verbatim>\<open>error.path.join('.')\<close>.\<close>

fun path_elem_string :: "path_elem \<Rightarrow> string" where
  "path_elem_string (Key k) = k"
| "path_elem_string (Index i) = string_of_nat i"

fun join_dot :: "string list \<Rightarrow> string" where
  "join_dot [] = []"
| "join_dot [x] = x"
| "join_dot (x # y # ys) = x @ ''.'' @ join_dot (y # ys)"

definition path_string :: "path_elem list \<Rightarrow> string" where
  "path_string p = join_dot (map path_elem_string p)"

subsection \<open>The schemas of the content types\<close>

definition profileSchema :: schema where
  "profileSchema = ZObject
     [(''name'', ZString [MinLength 1 ''Name is required'']),
      (''title'', ZString [MinLength 1 ''Title is required'']),
      (''bio'', ZString [MinLength 10 ''Bio should be at least 10 characters'']),
      (''email'', ZString [Email ''Invalid email format'']),
      (''location'', ZString [MinLength 1 ''Location is required'']),
      (''profileImage'', ZString [MinLength 1 ''Profile image path is required'']),
      (''social'', ZObject
         [(''github'', ZOptional (ZString [])),
          (''linkedin'', ZOptional (ZString [])),
          (''twitter'', ZOptional (ZString [])),
          (''scholar'', ZOptional (ZString []))])]"

definition skillsSchema :: schema where
  "skillsSchema = ZObject
     [(''categories'',
       ZArray
         (ZObject
            [(''name'', ZString [MinLength 1 ''Category name is required'']),
             (''skills'',
              ZArray
                (ZObject
                   [(''name'', ZString [MinLength 1 ''Skill name is required'']),
                    (''level'',
                     ZEnum [''Beginner'', ''Intermediate'', ''Advanced'', ''Expert'']
                       ''Level must be one of: Beginner, Intermediate, Advanced, Expert''),
                    (''color'', ZString [MinLength 1 ''Color is required''])])
                (Some (1, ''Each category must have at least one skill'')))])
         (Some (1, ''At least one skill category is required'')))]"

definition projectSchema :: schema where
  "projectSchema = ZObject
     [(''title'', ZString [MinLength 1 ''Project title is required'']),
      (''description'', ZString [MinLength 10 ''Description should be at least 10 characters'']),
      (''image'', ZString [MinLength 1 ''Image path is required'']),
      (''github'', ZOptional (ZString [Url ''Invalid GitHub URL''])),
      (''demo'', ZOptional (ZString [Url ''Invalid demo URL''])),
      (''featured'', ZDefault ZBoolean (YBool False)),
      (''order'', ZDefault (ZNumber []) (YNum (Fin 0))),
      (''tags'', ZArray (ZString []) (Some (1, ''At least one tag is required''))),
      (''startDate'', ZOptional (ZString [])),
      (''endDate'', ZOptional (ZString []))]"

text \<open>
  The bound of \<^verbatim>\<open>year\<close> is \<^verbatim>\<open>new Date().getFullYear() + 5\<close>; \<^verbatim>\<open>.min(1900)\<close> has no
  message of its own and gets the one of zod's default error map.
\<close>

definition publicationSchema :: "env \<Rightarrow> schema" where
  "publicationSchema e = ZObject
     [(''title'', ZString [MinLength 1 ''Publication title is required'']),
      (''authors'', ZArray (ZString []) (Some (1, ''At least one author is required''))),
      (''venue'', ZString [MinLength 1 ''Venue is required'']),
      (''year'', ZNumber [NumMin 1900 ''Number must be greater than or equal to 1900'',
                          NumMax (real_of_int (currentYear e + 5)) ''Year must be reasonable'']),
      (''url'', ZOptional (ZString [Url ''Invalid URL''])),
      (''type'',
       ZEnum [''conference'', ''journal'', ''patent'', ''preprint'']
         ''Type must be one of: conference, journal, patent, preprint''),
      (''doi'', ZOptional (ZString [])),
      (''abstract'', ZOptional (ZString []))]"

definition experienceSchema :: schema where
  "experienceSchema = ZObject
     [(''company'', ZString [MinLength 1 ''Company name is required'']),
      (''position'', ZString [MinLength 1 ''Position is required'']),
      (''startDate'', ZString [MinLength 1 ''Start date is required'']),
      (''endDate'', ZOptional (ZString [])),
      (''location'', ZString [MinLength 1 ''Location is required'']),
      (''logo'', ZOptional (ZString [])),
      (''website'', ZOptional (ZString [Url ''Invalid website URL''])),
      (''achievements'', ZArray (ZString []) (Some (1, ''At least one achievement is required''))),
      (''technologies'', ZOptional (ZArray (ZString []) None))]"

definition educationSchema :: schema where
  "educationSchema = ZObject
     [(''institution'', ZString [MinLength 1 ''Institution name is required'']),
      (''degree'', ZString [MinLength 1 ''Degree is required'']),
      (''field'', ZString [MinLength 1 ''Field of study is required'']),
      (''startDate'', ZString [MinLength 1 ''Start date is required'']),
      (''endDate'', ZOptional (ZString [])),
      (''location'', ZString [MinLength 1 ''Location is required'']),
      (''logo'', ZOptional (ZString [])),
      (''gpa'', ZOptional (ZString [])),
      (''honors'', ZOptional (ZArray (ZString []) None)),
      (''coursework'', ZOptional (ZArray (ZString []) None)),
      (''thesis'', ZOptional (ZString []))]"

subsection \<open>Validation results\<close>

text \<open>
  \<^verbatim>\<open>ValidationError\<close> has the fields of \<^verbatim>\<open>ValidationWarning\<close> and a severity, so it is
  declared as its extension; an optional \<^verbatim>\<open>field\<close> is an \<^typ>\<open>string option\<close>.
\<close>

datatype severity = SevError | SevWarning

record ValidationWarning =
  "file" :: string
  field :: "string option"
  message :: string

record ValidationError = ValidationWarning +
  severity :: severity

record ValidationResult =
  isValid :: bool
  errors :: "ValidationError list"
  warnings :: "ValidationWarning list"

text \<open>
  How a \<^verbatim>\<open>try\<close> block ends: it runs to its end, it returns a value, or it raises. The
  arrays it pushed to keep what was pushed before a raise, and the cache of
  gray-matter is as the block leaves it.
\<close>

datatype 'a completion = Normal | Return 'a | Throw exn

type_synonym 'a tried =
  "('a completion \<times> ValidationError list \<times> ValidationWarning list) \<times> matter_cache"

subsection \<open>\<^verbatim>\<open>validateContentFile\<close>\<close>

definition issue_error :: "string \<Rightarrow> ZodIssue \<Rightarrow> ValidationError" where
  "issue_error filePath error =
     \<lparr>file = filePath, field = Some (path_string (issue_path error)),
      message = issue_message error, severity = SevError\<rparr>"

definition checksContentLength :: "string \<Rightarrow> bool" where
  "checksContentLength contentType =
     (contentType = ''project'' \<or> contentType = ''publication'' \<or>
      contentType = ''experience'' \<or> contentType = ''education'')"

definition shortContentWarning :: "string \<Rightarrow> string \<Rightarrow> ValidationWarning" where
  "shortContentWarning filePath contentType =
     \<lparr>file = filePath, field = None,
      message = contentType @
        '' content is very short (less than 50 characters). Consider adding more details.''\<rparr>"

text \<open>
  The two asset checks: \<^verbatim>\<open>frontmatter.image && typeof frontmatter.image === 'string'\<close>,
  then the look-up under \<^verbatim>\<open>public\<close>.
\<close>

definition assetWarnings ::
  "env \<Rightarrow> string \<Rightarrow> string \<Rightarrow> string \<Rightarrow> yaml \<Rightarrow> ValidationWarning list" where
  "assetWarnings e filePath key what v =
     (case v of
        YStr s \<Rightarrow>
          (if truthy v \<and> \<not> existsSync e (path_join e [cwd e, ''public'', s])
           then [\<lparr>file = filePath, field = Some key,
                  message = ''Referenced '' @ what @ '' file not found: '' @ s\<rparr>]
           else [])
      | _ \<Rightarrow> [])"

text \<open>The body of the \<^verbatim>\<open>try\<close> block, with the two arrays and the cache as it leaves them.\<close>

definition validateContentFile_try ::
  "env \<Rightarrow> matter_cache \<Rightarrow> string \<Rightarrow> schema \<Rightarrow> string \<Rightarrow> ValidationResult tried" where
  "validateContentFile_try e cache filePath sch contentType =
     (if \<not> existsSync e filePath then
        (let errs = [\<lparr>file = filePath, field = None,
                      message = contentType @ '' file not found'', severity = SevError\<rparr>]
         in ((Return \<lparr>isValid = False, errors = errs, warnings = []\<rparr>, errs, []), cache))
      else
        (case readFileSync e filePath of
           Inl x \<Rightarrow> ((Throw x, [], []), cache)
         | Inr fileContent \<Rightarrow>
             (case matter e cache fileContent of
                (Inl x, cache') \<Rightarrow> ((Throw x, [], []), cache')
              | (Inr (frontmatter, content), cache') \<Rightarrow>
                  (let errs = map (issue_error filePath) (safeParse e sch frontmatter);
                       warns1 =
                         (if checksContentLength contentType \<and>
                             (content = [] \<or> length (trim content) < 50)
                          then [shortContentWarning filePath contentType] else [])
                   in (case js_get frontmatter ''image'' of
                         Inl x \<Rightarrow> ((Throw x, errs, warns1), cache')
                       | Inr imageValue \<Rightarrow>
                           (let warns2 = warns1 @ assetWarnings e filePath ''image'' ''image'' imageValue
                            in (case js_get frontmatter ''logo'' of
                                  Inl x \<Rightarrow> ((Throw x, errs, warns2), cache')
                                | Inr logoValue \<Rightarrow>
                                    ((Normal, errs,
                                      warns2 @ assetWarnings e filePath ''logo'' ''logo'' logoValue),
                                     cache'))))))))"

text \<open>
  The \<^verbatim>\<open>catch\<close> clause pushes one more error; the function then returns the object
  built from the two arrays.
\<close>

definition validateContentFile ::
  "env \<Rightarrow> matter_cache \<Rightarrow> string \<Rightarrow> schema \<Rightarrow> string \<Rightarrow>
   (exn + ValidationResult) \<times> matter_cache" where
  "validateContentFile e cache filePath sch contentType =
     (case validateContentFile_try e cache filePath sch contentType of
        ((Return r, errs, warns), cache') \<Rightarrow> (Inr r, cache')
      | ((Normal, errs, warns), cache') \<Rightarrow>
          (Inr \<lparr>isValid = (length errs = 0), errors = errs, warnings = warns\<rparr>, cache')
      | ((Throw x, errs, warns), cache') \<Rightarrow>
          (let errs' = errs @ [\<lparr>file = filePath, field = None,
                                 message = ''Failed to parse file: '' @ error_message x,
                                 severity = SevError\<rparr>]
           in (Inr \<lparr>isValid = (length errs' = 0), errors = errs', warnings = warns\<rparr>, cache')))"

definition profilePath :: "env \<Rightarrow> string" where
  "profilePath e = path_join e [cwd e, ''src/content/profile/main.md'']"

definition skillsPath :: "env \<Rightarrow> string" where
  "skillsPath e = path_join e [cwd e, ''src/content/skills/main.md'']"

definition validateProfile :: "env \<Rightarrow> matter_cache \<Rightarrow> (exn + ValidationResult) \<times> matter_cache" where
  "validateProfile e cache = validateContentFile e cache (profilePath e) profileSchema ''profile''"

definition validateSkills :: "env \<Rightarrow> matter_cache \<Rightarrow> (exn + ValidationResult) \<times> matter_cache" where
  "validateSkills e cache = validateContentFile e cache (skillsPath e) skillsSchema ''skills''"

subsection \<open>\<^verbatim>\<open>validateCollection\<close> and \<^verbatim>\<open>validateAllContent\<close>\<close>

text \<open>
  The \<^verbatim>\<open>files.forEach\<close> loop: a raise of the callback leaves the loop. Each file finds
  the cache as the file before it left it.
\<close>

fun validateFiles ::
  "env \<Rightarrow> matter_cache \<Rightarrow> string \<Rightarrow> schema \<Rightarrow> string \<Rightarrow> string list \<Rightarrow>
   ValidationError list \<Rightarrow> ValidationWarning list \<Rightarrow> ValidationResult tried" where
  "validateFiles e cache collectionPath sch collectionName [] allErrors allWarnings =
     ((Normal, allErrors, allWarnings), cache)"
| "validateFiles e cache collectionPath sch collectionName (f # files) allErrors allWarnings =
     (case validateContentFile e cache (path_join e [collectionPath, f]) sch collectionName of
        (Inl x, cache') \<Rightarrow> ((Throw x, allErrors, allWarnings), cache')
      | (Inr result, cache') \<Rightarrow>
          validateFiles e cache' collectionPath sch collectionName files
            (allErrors @ errors result) (allWarnings @ warnings result))"

definition contentFiles :: "string list \<Rightarrow> string list" where
  "contentFiles entries =
     filter (\<lambda>f. endsWith f ''.md'' \<and> \<not> startsWith f ''.'') entries"

definition validateCollection_try ::
  "env \<Rightarrow> matter_cache \<Rightarrow> string \<Rightarrow> string \<Rightarrow> schema \<Rightarrow> ValidationResult tried" where
  "validateCollection_try e cache collectionPath collectionName sch =
     (if \<not> existsSync e collectionPath then
        (let errs = [\<lparr>file = collectionPath, field = None,
                      message = ''Collection directory not found: '' @ collectionName,
                      severity = SevError\<rparr>]
         in ((Return \<lparr>isValid = False, errors = errs, warnings = []\<rparr>, errs, []), cache))
      else
        (case readdirSync e collectionPath of
           Inl x \<Rightarrow> ((Throw x, [], []), cache)
         | Inr entries \<Rightarrow>
             (let files = contentFiles entries;
                  allWarnings =
                    (if length files = 0
                     then [\<lparr>file = collectionPath, field = None,
                            message = ''No content files found in '' @ collectionName
                                      @ '' collection''\<rparr>]
                     else [])
              in validateFiles e cache collectionPath sch collectionName files [] allWarnings)))"

definition validateCollection ::
  "env \<Rightarrow> matter_cache \<Rightarrow> string \<Rightarrow> schema \<Rightarrow> (exn + ValidationResult) \<times> matter_cache" where
  "validateCollection e cache collectionName sch =
     (let collectionPath = contentPath e collectionName
      in (case validateCollection_try e cache collectionPath collectionName sch of
            ((Return r, allErrors, allWarnings), cache') \<Rightarrow> (Inr r, cache')
          | ((Normal, allErrors, allWarnings), cache') \<Rightarrow>
              (Inr \<lparr>isValid = (length allErrors = 0), errors = allErrors,
                    warnings = allWarnings\<rparr>, cache')
          | ((Throw x, allErrors, allWarnings), cache') \<Rightarrow>
              (let errs' = allErrors @
                     [\<lparr>file = collectionPath, field = None,
                       message = ''Failed to read collection directory: '' @ error_message x,
                       severity = SevError\<rparr>]
               in (Inr \<lparr>isValid = (length errs' = 0), errors = errs',
                         warnings = allWarnings\<rparr>, cache'))))"

definition collections :: "env \<Rightarrow> (string \<times> schema) list" where
  "collections e =
     [(''projects'', projectSchema),
      (''publications'', publicationSchema e),
      (''experience'', experienceSchema),
      (''education'', educationSchema)]"

text \<open>The \<^verbatim>\<open>collections.forEach\<close> loop of \<^verbatim>\<open>validateAllContent\<close>; nothing catches here.\<close>

fun validateCollections ::
  "env \<Rightarrow> matter_cache \<Rightarrow> (string \<times> schema) list \<Rightarrow>
   ValidationError list \<Rightarrow> ValidationWarning list \<Rightarrow>
   (exn + (ValidationError list \<times> ValidationWarning list)) \<times> matter_cache" where
  "validateCollections e cache [] allErrors allWarnings = (Inr (allErrors, allWarnings), cache)"
| "validateCollections e cache ((name, sch) # rest) allErrors allWarnings =
     (case validateCollection e cache name sch of
        (Inl x, cache') \<Rightarrow> (Inl x, cache')
      | (Inr result, cache') \<Rightarrow>
          validateCollections e cache' rest
            (allErrors @ errors result) (allWarnings @ warnings result))"

definition validateAllContent ::
  "env \<Rightarrow> matter_cache \<Rightarrow> (exn + ValidationResult) \<times> matter_cache" where
  "validateAllContent e cache =
     (case validateProfile e cache of
        (Inl x, cache1) \<Rightarrow> (Inl x, cache1)
      | (Inr profileResult, cache1) \<Rightarrow>
          (case validateSkills e cache1 of
             (Inl x, cache2) \<Rightarrow> (Inl x, cache2)
           | (Inr skillsResult, cache2) \<Rightarrow>
               (case validateCollections e cache2 (collections e)
                       (errors profileResult @ errors skillsResult)
                       (warnings profileResult @ warnings skillsResult) of
                  (Inl x, cache3) \<Rightarrow> (Inl x, cache3)
                | (Inr (allErrors, allWarnings), cache3) \<Rightarrow>
                    (Inr \<lparr>isValid = (length allErrors = 0), errors = allErrors,
                          warnings = allWarnings\<rparr>, cache3))))"

subsection \<open>\<^verbatim>\<open>validateContentCompleteness\<close>\<close>

record CompletenessResult =
  score :: int
  suggestions :: "string list"
  completedSections :: "string list"
  missingSections :: "string list"

text \<open>The variables the function updates as it goes.\<close>

record scoring =
  sugg :: "string list"
  completed :: "string list"
  missing :: "string list"
  totalScore :: int

text \<open>\<^verbatim>\<open>Object.keys(v).length\<close>: the indices of a string or an array, the own keys of an object.\<close>

fun object_keys_length :: "yaml \<Rightarrow> exn + nat" where
  "object_keys_length YUndefined = Inl (JsError ''Cannot convert undefined or null to object'')"
| "object_keys_length YNull = Inl (JsError ''Cannot convert undefined or null to object'')"
| "object_keys_length (YStr s) = Inr (length s)"
| "object_keys_length (YArr xs) = Inr (length xs)"
| "object_keys_length (YObj kvs) = Inr (length (remdups (map fst kvs)))"
| "object_keys_length _ = Inr 0"

text \<open>
  \<^verbatim>\<open>v >= r\<close> for a number \<^verbatim>\<open>r\<close>: \<^verbatim>\<open>undefined\<close> becomes NaN, \<^verbatim>\<open>null\<close> zero, a boolean zero or
  one; strings and objects go through ToNumber.
\<close>

fun js_ge :: "env \<Rightarrow> yaml \<Rightarrow> real \<Rightarrow> exn + bool" where
  "js_ge e (YNum n) r = Inr (num_ge n (Fin r))"
| "js_ge e YUndefined r = Inr False"
| "js_ge e YNull r = Inr (num_ge (Fin 0) (Fin r))"
| "js_ge e (YBool b) r = Inr (num_ge (Fin (if b then 1 else 0)) (Fin r))"
| "js_ge e v r = (case toNumber e v of Inl x \<Rightarrow> Inl x | Inr n \<Rightarrow> Inr (num_ge n (Fin r)))"

text \<open>\<^verbatim>\<open>data.name && data.title && data.bio && data.email\<close>, as a condition.\<close>

definition hasBasics :: "yaml \<Rightarrow> exn + bool" where
  "hasBasics data =
     (case js_get data ''name'' of
        Inl x \<Rightarrow> Inl x
      | Inr v1 \<Rightarrow>
          if \<not> truthy v1 then Inr False
          else (case js_get data ''title'' of
                  Inl x \<Rightarrow> Inl x
                | Inr v2 \<Rightarrow>
                    if \<not> truthy v2 then Inr False
                    else (case js_get data ''bio'' of
                            Inl x \<Rightarrow> Inl x
                          | Inr v3 \<Rightarrow>
                              if \<not> truthy v3 then Inr False
                              else (case js_get data ''email'' of
                                      Inl x \<Rightarrow> Inl x
                                    | Inr v4 \<Rightarrow> Inr (truthy v4)))))"

definition hasProfileImage :: "yaml \<Rightarrow> exn + bool" where
  "hasProfileImage data =
     (case js_get data ''profileImage'' of Inl x \<Rightarrow> Inl x | Inr v \<Rightarrow> Inr (truthy v))"

text \<open>\<^verbatim>\<open>data.social && Object.keys(data.social).length > 0\<close>.\<close>

definition hasSocial :: "yaml \<Rightarrow> exn + bool" where
  "hasSocial data =
     (case js_get data ''social'' of
        Inl x \<Rightarrow> Inl x
      | Inr v \<Rightarrow>
          if \<not> truthy v then Inr False
          else (case object_keys_length v of Inl x \<Rightarrow> Inl x | Inr n \<Rightarrow> Inr (n > 0)))"

definition hasLongBody :: "string \<Rightarrow> bool" where
  "hasLongBody content = (content \<noteq> [] \<and> length content > 100)"

definition profileScore :: "yaml \<Rightarrow> string \<Rightarrow> exn + int" where
  "profileScore data content =
     (case hasBasics data of
        Inl x \<Rightarrow> Inl x
      | Inr c1 \<Rightarrow>
          (case hasProfileImage data of
             Inl x \<Rightarrow> Inl x
           | Inr c2 \<Rightarrow>
               (case hasSocial data of
                  Inl x \<Rightarrow> Inl x
                | Inr c3 \<Rightarrow>
                    Inr ((if c1 then 10 else 0) + (if c2 then 5 else 0) + (if c3 then 3 else 0)
                         + (if hasLongBody content then 2 else 0)))))"

text \<open>The three suggestions of an incomplete profile.\<close>

definition profileSuggestions :: "yaml \<Rightarrow> string \<Rightarrow> string list \<Rightarrow> exn option \<times> string list" where
  "profileSuggestions data content sg =
     (case hasProfileImage data of
        Inl x \<Rightarrow> (Some x, sg)
      | Inr c2 \<Rightarrow>
          (let sg1 = (if \<not> c2
                      then sg @ [''Add a profile image to make your portfolio more personal'']
                      else sg)
           in (case hasSocial data of
                 Inl x \<Rightarrow> (Some x, sg1)
               | Inr c3 \<Rightarrow>
                   (let sg2 = (if \<not> c3
                               then sg1 @ [''Add social media links to increase connectivity'']
                               else sg1)
                    in (None,
                        if content = [] \<or> length content < 100
                        then sg2 @ [''Expand your profile description with more details about yourself'']
                        else sg2)))))"

text \<open>
  The \<^verbatim>\<open>try\<close> block of the profile: the exception it ended with, if any, the
  variables, and the cache of gray-matter.
\<close>

definition profile_try :: "env \<Rightarrow> matter_cache \<Rightarrow> scoring \<Rightarrow> (exn option \<times> scoring) \<times> matter_cache" where
  "profile_try e cache st =
     (case readFileSync e (profilePath e) of
        Inl x \<Rightarrow> ((Some x, st), cache)
      | Inr profileContent \<Rightarrow>
          (case matter e cache profileContent of
             (Inl x, cache') \<Rightarrow> ((Some x, st), cache')
           | (Inr (data, content), cache') \<Rightarrow>
               (case profileScore data content of
                  Inl x \<Rightarrow> ((Some x, st), cache')
                | Inr ps \<Rightarrow>
                    (let st1 = st\<lparr>totalScore := totalScore st + ps\<rparr>
                     in if ps \<ge> 15
                        then ((None, st1\<lparr>completed := completed st1 @ [''Profile'']\<rparr>), cache')
                        else (let st2 = st1\<lparr>missing := missing st1 @ [''Profile'']\<rparr>
                              in (case profileSuggestions data content (sugg st2) of
                                    (x, sg) \<Rightarrow> ((x, st2\<lparr>sugg := sg\<rparr>), cache')))))))"

definition profile_section :: "env \<Rightarrow> matter_cache \<Rightarrow> scoring \<Rightarrow> scoring \<times> matter_cache" where
  "profile_section e cache st =
     (case profile_try e cache st of
        ((None, st'), cache') \<Rightarrow> (st', cache')
      | ((Some x, st'), cache') \<Rightarrow>
          (st'\<lparr>missing := missing st' @ [''Profile''],
               sugg := sugg st' @
                 [''Create a complete profile with name, title, bio, email, and image'']\<rparr>,
           cache'))"

text \<open>The callback of \<^verbatim>\<open>some\<close>: \<^verbatim>\<open>cat.skills && cat.skills.length >= 3\<close>.\<close>

definition hasThreeSkills :: "env \<Rightarrow> yaml \<Rightarrow> exn + bool" where
  "hasThreeSkills e cat =
     (case js_get cat ''skills'' of
        Inl x \<Rightarrow> Inl x
      | Inr sk \<Rightarrow>
          if \<not> truthy sk then Inr False
          else (case js_get sk ''length'' of Inl x \<Rightarrow> Inl x | Inr n \<Rightarrow> js_ge e n 3))"

fun some_hasThreeSkills :: "env \<Rightarrow> yaml list \<Rightarrow> exn + bool" where
  "some_hasThreeSkills e [] = Inr False"
| "some_hasThreeSkills e (cat # cats) =
     (case hasThreeSkills e cat of
        Inl x \<Rightarrow> Inl x
      | Inr b \<Rightarrow> if b then Inr True else some_hasThreeSkills e cats)"

text \<open>\<^verbatim>\<open>data.categories && data.categories.length >= 3\<close>.\<close>

definition hasThreeCategories :: "env \<Rightarrow> yaml \<Rightarrow> exn + bool" where
  "hasThreeCategories e data =
     (case js_get data ''categories'' of
        Inl x \<Rightarrow> Inl x
      | Inr cats \<Rightarrow>
          if \<not> truthy cats then Inr False
          else (case js_get cats ''length'' of Inl x \<Rightarrow> Inl x | Inr n \<Rightarrow> js_ge e n 3))"

text \<open>
  \<^verbatim>\<open>data.categories && data.categories.some(...)\<close>: only an array has \<^verbatim>\<open>some\<close>; on any
  other truthy value the call raises a TypeError.
\<close>

definition hasSkilledCategory :: "env \<Rightarrow> yaml \<Rightarrow> exn + bool" where
  "hasSkilledCategory e data =
     (case js_get data ''categories'' of
        Inl x \<Rightarrow> Inl x
      | Inr cats \<Rightarrow>
          if \<not> truthy cats then Inr False
          else (case cats of
                  YArr xs \<Rightarrow> some_hasThreeSkills e xs
                | _ \<Rightarrow> Inl (JsError ''data.categories.some is not a function'')))"

definition skillsScore :: "env \<Rightarrow> yaml \<Rightarrow> exn + int" where
  "skillsScore e data =
     (case hasThreeCategories e data of
        Inl x \<Rightarrow> Inl x
      | Inr c1 \<Rightarrow>
          (case hasSkilledCategory e data of
             Inl x \<Rightarrow> Inl x
           | Inr c2 \<Rightarrow> Inr ((if c1 then 10 else 0) + (if c2 then 5 else 0))))"

definition skills_try :: "env \<Rightarrow> matter_cache \<Rightarrow> scoring \<Rightarrow> (exn option \<times> scoring) \<times> matter_cache" where
  "skills_try e cache st =
     (case readFileSync e (skillsPath e) of
        Inl x \<Rightarrow> ((Some x, st), cache)
      | Inr skillsContent \<Rightarrow>
          (case matter e cache skillsContent of
             (Inl x, cache') \<Rightarrow> ((Some x, st), cache')
           | (Inr (data, content), cache') \<Rightarrow>
               (case skillsScore e data of
                  Inl x \<Rightarrow> ((Some x, st), cache')
                | Inr ss \<Rightarrow>
                    (let st1 = st\<lparr>totalScore := totalScore st + ss\<rparr>
                     in if ss \<ge> 10
                        then ((None, st1\<lparr>completed := completed st1 @ [''Skills'']\<rparr>), cache')
                        else ((None,
                               st1\<lparr>missing := missing st1 @ [''Skills''],
                                   sugg := sugg st1 @
                                     [''Add at least 3 skill categories with multiple skills each'']\<rparr>),
                              cache')))))"

definition skills_section :: "env \<Rightarrow> matter_cache \<Rightarrow> scoring \<Rightarrow> scoring \<times> matter_cache" where
  "skills_section e cache st =
     (case skills_try e cache st of
        ((None, st'), cache') \<Rightarrow> (st', cache')
      | ((Some x, st'), cache') \<Rightarrow>
          (st'\<lparr>missing := missing st' @ [''Skills''],
               sugg := sugg st' @
                 [''Create a skills section with categorized technical skills'']\<rparr>,
           cache'))"

text \<open>The scored collections: name, weight and \<^verbatim>\<open>minFiles\<close>.\<close>

definition scoredCollections :: "(string \<times> int \<times> nat) list" where
  "scoredCollections =
     [(''projects'', 25, 2), (''experience'', 20, 1),
      (''publications'', 10, 1), (''education'', 10, 1)]"

definition markdownFiles :: "string list \<Rightarrow> string list" where
  "markdownFiles entries = filter (\<lambda>f. endsWith f ''.md'') entries"

definition showcase :: "string \<Rightarrow> string" where
  "showcase name =
     (if name = ''publications'' then ''research work'' else ''professional background'')"

text \<open>
  One round of \<^verbatim>\<open>collections.forEach\<close>. No \<^verbatim>\<open>try\<close> surrounds it: a raise of
  \<^verbatim>\<open>readdirSync\<close> leaves the function.
\<close>

definition scoreCollection :: "env \<Rightarrow> string \<times> int \<times> nat \<Rightarrow> scoring \<Rightarrow> exn + scoring" where
  "scoreCollection e c st =
     (case c of (name, weight, minFiles) \<Rightarrow>
        (let collectionPath = contentPath e name
         in if existsSync e collectionPath then
              (case readdirSync e collectionPath of
                 Inl x \<Rightarrow> Inl x
               | Inr entries \<Rightarrow>
                   (let files = markdownFiles entries
                    in if length files \<ge> minFiles then
                         Inr (st\<lparr>completed := completed st @ [capitalize name],
                                 totalScore := totalScore st + weight\<rparr>)
                       else if length files > 0 then
                         Inr (st\<lparr>missing := missing st @ [capitalize name],
                                 sugg := sugg st @
                                   [''Add more '' @ name @ '' - you have ''
                                    @ string_of_nat (length files) @ '' but ''
                                    @ string_of_nat minFiles @ '' or more is recommended''],
                                 totalScore := totalScore st
                                   + \<lfloor>real_of_int weight * (5 / 10)\<rfloor>\<rparr>)
                       else
                         Inr (st\<lparr>missing := missing st @ [capitalize name],
                                 sugg := sugg st @
                                   [''Add '' @ name @ '' to showcase your '' @ showcase name],
                                 totalScore := totalScore st + 0\<rparr>)))
            else
              Inr (st\<lparr>missing := missing st @ [capitalize name],
                      sugg := sugg st @
                        [''Create '' @ name @ '' section to showcase your '' @ showcase name],
                      totalScore := totalScore st + 0\<rparr>)))"

fun scoreCollections :: "env \<Rightarrow> (string \<times> int \<times> nat) list \<Rightarrow> scoring \<Rightarrow> exn + scoring" where
  "scoreCollections e [] st = Inr st"
| "scoreCollections e (c # cs) st =
     (case scoreCollection e c st of
        Inl x \<Rightarrow> Inl x
      | Inr st' \<Rightarrow> scoreCollections e cs st')"

text \<open>
  \<^verbatim>\<open>Math.round\<close> rounds to the nearest integer, a half upwards. The quotient and the
  product of the score are taken in the reals: in double precision they differ from
  these by far less than a half, so the rounded value is the same.
\<close>

definition js_round :: "real \<Rightarrow> int" where
  "js_round x = \<lfloor>x + 1 / 2\<rfloor>"

definition maxScore :: int where
  "maxScore = 100"

definition validateContentCompleteness ::
  "env \<Rightarrow> matter_cache \<Rightarrow> (exn + CompletenessResult) \<times> matter_cache" where
  "validateContentCompleteness e cache =
     (let st0 = \<lparr>sugg = [], completed = [], missing = [], totalScore = 0\<rparr>
      in (case profile_section e cache st0 of
            (st1, cache1) \<Rightarrow>
              (case skills_section e cache1 st1 of
                 (st2, cache2) \<Rightarrow>
                   (case scoreCollections e scoredCollections st2 of
                      Inl x \<Rightarrow> (Inl x, cache2)
                    | Inr st3 \<Rightarrow>
                        (Inr \<lparr>score = js_round ((real_of_int (totalScore st3)
                                                   / real_of_int maxScore) * 100),
                              suggestions = sugg st3,
                              completedSections = completed st3,
                              missingSections = missing st3\<rparr>,
                         cache2)))))"

subsection \<open>The command-line script\<close>

text \<open>
  The script carries its own copy of the schemas and of the three validation
  functions, the same statement for statement (it writes the test of the content
  type with \<^verbatim>\<open>includes\<close> and reads the message of a caught exception directly).
  What it prints is not modelled; how it ends is: \<^verbatim>\<open>process.exit(1)\<close> ends the
  process at once.
\<close>

definition isWatchMode :: "string list \<Rightarrow> bool" where
  "isWatchMode argv = (''--watch'' \<in> set argv)"

fun getContentCounts :: "env \<Rightarrow> string list \<Rightarrow> exn + (string \<times> nat) list" where
  "getContentCounts e [] = Inr []"
| "getContentCounts e (dir # dirs) =
     (let dirPath = contentPath e dir
      in (case (if existsSync e dirPath
                then (case readdirSync e dirPath of
                        Inl x \<Rightarrow> Inl x
                      | Inr entries \<Rightarrow> Inr (length (markdownFiles entries)))
                else Inr 0) of
            Inl x \<Rightarrow> Inl x
          | Inr n \<Rightarrow>
              (case getContentCounts e dirs of
                 Inl x \<Rightarrow> Inl x
               | Inr stats \<Rightarrow> Inr ((dir, n) # stats))))"

definition contentDirs :: "string list" where
  "contentDirs = [''projects'', ''publications'', ''experience'', ''education'']"

definition printContentSummary :: "env \<Rightarrow> exn + unit" where
  "printContentSummary e =
     (case getContentCounts e contentDirs of Inl x \<Rightarrow> Inl x | Inr counts \<Rightarrow> Inr ())"

datatype run_outcome = ProcessExit nat | Returned bool

text \<open>
  \<^verbatim>\<open>runValidation\<close>, with the cache of gray-matter as it leaves it: the summary does
  not parse anything.
\<close>

definition runValidation :: "bool \<Rightarrow> env \<Rightarrow> matter_cache \<Rightarrow> run_outcome \<times> matter_cache" where
  "runValidation watch e cache =
     (case (case printContentSummary e of
              Inl x \<Rightarrow> (Inl x, cache)
            | Inr u \<Rightarrow> validateAllContent e cache) of
        (Inr result, cache') \<Rightarrow>
          (if \<not> isValid result
           then (if watch then (Returned False, cache') else (ProcessExit 1, cache'))
           else (Returned True, cache'))
      | (Inl error, cache') \<Rightarrow>
          (if \<not> watch then (ProcessExit 1, cache') else (Returned False, cache')))"

text \<open>
  A change event of \<^verbatim>\<open>fs.watch\<close> on the content directory: the file name it reports,
  if any, and the environment that the validation it schedules will find.
\<close>

type_synonym change_event = "string option \<times> env"

definition triggers :: "change_event \<Rightarrow> bool" where
  "triggers ev =
     (case fst ev of
        None \<Rightarrow> False
      | Some filename \<Rightarrow> filename \<noteq> [] \<and> endsWith filename ''.md'')"

text \<open>
  How the process stands after a sequence of runs: it has exited with a status, or
  it is still there, with the results of the runs so far. The runs are in one
  process, so each finds the cache of gray-matter as the one before left it.
\<close>

datatype process = Exited nat | Alive "bool list"

fun runs :: "bool \<Rightarrow> env list \<Rightarrow> bool list \<Rightarrow> matter_cache \<Rightarrow> process" where
  "runs watch [] sofar cache = Alive sofar"
| "runs watch (e # es) sofar cache =
     (case runValidation watch e cache of
        (ProcessExit n, cache') \<Rightarrow> Exited n
      | (Returned b, cache') \<Rightarrow> runs watch es (sofar @ [b]) cache')"

text \<open>
  \<^verbatim>\<open>watchContent\<close>: the initial validation, then \<^verbatim>\<open>fs.watch\<close> on the content
  directory, then one validation for each event that triggers. Nothing catches a
  raise of \<^verbatim>\<open>fs.watch\<close>: it leaves the function.
\<close>

definition watchContent ::
  "bool \<Rightarrow> env \<Rightarrow> change_event list \<Rightarrow> matter_cache \<Rightarrow> exn + process" where
  "watchContent watch e events cache =
     (let contentDir = path_join e [cwd e, ''src/content'']
      in (case runValidation watch e cache of
            (ProcessExit n, cache') \<Rightarrow> Inr (Exited n)
          | (Returned b, cache') \<Rightarrow>
              (case fsWatch e contentDir of
                 Inl x \<Rightarrow> Inl x
               | Inr watcher \<Rightarrow>
                   Inr (runs watch (map snd (filter triggers events)) [b] cache'))))"

text \<open>
  \<^verbatim>\<open>main\<close>, in a new process, so with an empty cache. Without \<^verbatim>\<open>--watch\<close> the
  script validates once, and a process that is left with nothing to do exits with
  status 0. The call \<^verbatim>\<open>main()\<close> has no handler: an exception that leaves
  \<^verbatim>\<open>watchContent\<close> is an unhandled rejection, on which Node ends the process with
  status 1.
\<close>

definition main :: "string list \<Rightarrow> env \<Rightarrow> change_event list \<Rightarrow> process" where
  "main argv e events =
     (if isWatchMode argv then
        (case watchContent (isWatchMode argv) e events Map.empty of
           Inl x \<Rightarrow> Exited 1
         | Inr p \<Rightarrow> p)
      else (case runValidation (isWatchMode argv) e Map.empty of
              (ProcessExit n, cache') \<Rightarrow> Exited n
            | (Returned b, cache') \<Rightarrow> Exited 0))"

section \<open>Notions of the properties\<close>

subsection \<open>Required fields and parse failures\<close>

text \<open>
  A field of an object schema is required when its schema is neither optional nor
  has a default. Removing a field from a front-matter drops its entry.
\<close>

fun required :: "schema \<Rightarrow> bool" where
  "required (ZOptional inner) = False"
| "required (ZDefault inner d) = False"
| "required _ = True"

definition requiredFields :: "schema \<Rightarrow> string list" where
  "requiredFields sch =
     (case sch of
        ZObject shape \<Rightarrow> map fst (filter (\<lambda>ks. required (snd ks)) shape)
      | _ \<Rightarrow> [])"

definition removeField :: "string \<Rightarrow> yaml \<Rightarrow> yaml" where
  "removeField k data =
     (case data of YObj kvs \<Rightarrow> YObj (filter (\<lambda>kv. fst kv \<noteq> k) kvs) | _ \<Rightarrow> data)"

text \<open>
  The same for a field deeper in the front-matter, named by its path of keys and
  array indices: \<open>requiredAt\<close> follows the path through the schema and the value
  and tells whether it ends at a required field of an object schema; \<open>removeAt\<close>
  drops the entry at the end of the path.
\<close>

fun removeAt :: "path_elem list \<Rightarrow> yaml \<Rightarrow> yaml" where
  "removeAt [Key k] (YObj kvs) = YObj (filter (\<lambda>kv. fst kv \<noteq> k) kvs)"
| "removeAt (Key k # q) (YObj kvs) =
     YObj (map (\<lambda>kv. if fst kv = k then (k, removeAt q (snd kv)) else kv) kvs)"
| "removeAt (Index i # q) (YArr xs) =
     (if i < length xs then YArr (xs[i := removeAt q (xs ! i)]) else YArr xs)"
| "removeAt q v = v"

fun requiredAt :: "schema \<Rightarrow> path_elem list \<Rightarrow> yaml \<Rightarrow> bool" where
  "requiredAt (ZObject shape) (Key k # q) (YObj kvs) =
     (case map_of shape k of
        None \<Rightarrow> False
      | Some s \<Rightarrow> if q = [] then required s else requiredAt s q (own_property kvs k))"
| "requiredAt (ZArray element minLength) (Index i # q) (YArr xs) =
     (i < length xs \<and> requiredAt element q (xs ! i))"
| "requiredAt (ZOptional inner) q v = requiredAt inner q v"
| "requiredAt (ZDefault inner d) q v = requiredAt inner q v"
| "requiredAt s q v = False"

definition contentSchemas :: "env \<Rightarrow> schema list" where
  "contentSchemas e =
     [profileSchema, skillsSchema, projectSchema, publicationSchema e,
      experienceSchema, educationSchema]"

text \<open>The entry that the \<^verbatim>\<open>catch\<close> clause of \<^verbatim>\<open>validateContentFile\<close> records.\<close>

definition parseFailure :: "string \<Rightarrow> exn \<Rightarrow> ValidationError" where
  "parseFailure filePath x =
     \<lparr>file = filePath, field = None,
      message = ''Failed to parse file: '' @ error_message x, severity = SevError\<rparr>"

subsection \<open>What the cache holds, and what fails\<close>

text \<open>The text that the validation of a path reads, if the file is there and can be read.\<close>

definition textOf :: "env \<Rightarrow> string \<Rightarrow> string option" where
  "textOf e p =
     (if existsSync e p
      then (case readFileSync e p of Inl x \<Rightarrow> None | Inr t \<Rightarrow> Some t)
      else None)"

text \<open>
  A text that gray-matter looks up in its cache, and enters there when it meets it for
  the first time, in both cases without its byte order mark.
\<close>

definition cacheable :: "env \<Rightarrow> string \<Rightarrow> bool" where
  "cacheable e t = (t \<noteq> [] \<and> stripBom e t \<notin> set objectPrototypeKeys)"

text \<open>The cache after the validation of one file, and of a list of files in order.\<close>

definition fileCache :: "env \<Rightarrow> matter_cache \<Rightarrow> string \<Rightarrow> matter_cache" where
  "fileCache e c p = (case textOf e p of None \<Rightarrow> c | Some t \<Rightarrow> snd (matter e c t))"

fun cacheAfter :: "env \<Rightarrow> matter_cache \<Rightarrow> string list \<Rightarrow> matter_cache" where
  "cacheAfter e c [] = c"
| "cacheAfter e c (p # ps) = cacheAfter e (fileCache e c p) ps"


text \<open>
  The failure of the validation of a file, as the entry that records it: the file is
  not there; reading it raises; gray-matter raises; the front-matter is \<^verbatim>\<open>null\<close> or
  \<^verbatim>\<open>undefined\<close>, so that reading a property of it raises.
\<close>

definition failureOf :: "env \<Rightarrow> matter_cache \<Rightarrow> string \<Rightarrow> string \<Rightarrow> ValidationError option" where
  "failureOf e c filePath contentType =
     (if \<not> existsSync e filePath
      then Some \<lparr>file = filePath, field = None,
                  message = contentType @ '' file not found'', severity = SevError\<rparr>
      else (case readFileSync e filePath of
              Inl x \<Rightarrow> Some (parseFailure filePath x)
            | Inr t \<Rightarrow>
                (case fst (matter e c t) of
                   Inl x \<Rightarrow> Some (parseFailure filePath x)
                 | Inr parsed \<Rightarrow>
                     (case js_get (fst parsed) ''image'' of
                        Inl x \<Rightarrow> Some (parseFailure filePath x)
                      | Inr v \<Rightarrow> None))))"

text \<open>The failure of listing the directory of a collection, as the entry that records it.\<close>

definition dirFailureOf :: "env \<Rightarrow> string \<Rightarrow> ValidationError option" where
  "dirFailureOf e name =
     (if \<not> existsSync e (contentPath e name)
      then Some \<lparr>file = contentPath e name, field = None,
                  message = ''Collection directory not found: '' @ name, severity = SevError\<rparr>
      else (case readdirSync e (contentPath e name) of
              Inl x \<Rightarrow>
                Some \<lparr>file = contentPath e name, field = None,
                       message = ''Failed to read collection directory: '' @ error_message x,
                       severity = SevError\<rparr>
            | Inr entries \<Rightarrow> None))"

text \<open>
  The files that the validation of a collection visits, each with the content type it
  is validated as, and the files that the validation of the whole site visits, in
  order.
\<close>

definition collectionFiles :: "env \<Rightarrow> string \<Rightarrow> (string \<times> string) list" where
  "collectionFiles e name =
     (if existsSync e (contentPath e name)
      then (case readdirSync e (contentPath e name) of
              Inl x \<Rightarrow> []
            | Inr entries \<Rightarrow>
                map (\<lambda>f. (path_join e [contentPath e name, f], name)) (contentFiles entries))
      else [])"

definition visitedFiles :: "env \<Rightarrow> (string \<times> string) list" where
  "visitedFiles e =
     [(profilePath e, ''profile''), (skillsPath e, ''skills'')]
     @ concat (map (collectionFiles e) (map fst (collections e)))"

text \<open>
  A list of errors records the failures of a list of files: going through the files
  in order, each with the cache as the one before left it, the entry of every
  failure is in the list.
\<close>

fun recordsFailures ::
  "env \<Rightarrow> matter_cache \<Rightarrow> (string \<times> string) list \<Rightarrow> ValidationError list \<Rightarrow> bool" where
  "recordsFailures e c [] errs = True"
| "recordsFailures e c (f # fs) errs =
     ((case failureOf e c (fst f) (snd f) of None \<Rightarrow> True | Some err \<Rightarrow> err \<in> set errs) \<and>
      recordsFailures e (fileCache e c (fst f)) fs errs)"

subsection \<open>Completeness\<close>

text \<open>
  The scored conditions of the profile and of the skills, as the function evaluates
  them; \<open>None\<close> when reading, parsing or evaluating raises, which the function
  answers with no points for the section. The skills are evaluated with the cache as
  the profile left it.
\<close>

definition profileChecks :: "env \<Rightarrow> matter_cache \<Rightarrow> bool list option" where
  "profileChecks e c =
     (case readFileSync e (profilePath e) of
        Inl x \<Rightarrow> None
      | Inr profileContent \<Rightarrow>
          (case fst (matter e c profileContent) of
             Inl x \<Rightarrow> None
           | Inr (data, content) \<Rightarrow>
               (case hasBasics data of
                  Inl x \<Rightarrow> None
                | Inr c1 \<Rightarrow>
                    (case hasProfileImage data of
                       Inl x \<Rightarrow> None
                     | Inr c2 \<Rightarrow>
                         (case hasSocial data of
                            Inl x \<Rightarrow> None
                          | Inr c3 \<Rightarrow> Some [c1, c2, c3, hasLongBody content])))))"

definition profileCache :: "env \<Rightarrow> matter_cache \<Rightarrow> matter_cache" where
  "profileCache e c =
     (case readFileSync e (profilePath e) of
        Inl x \<Rightarrow> c
      | Inr profileContent \<Rightarrow> snd (matter e c profileContent))"

definition skillsChecks :: "env \<Rightarrow> matter_cache \<Rightarrow> bool list option" where
  "skillsChecks e c =
     (case readFileSync e (skillsPath e) of
        Inl x \<Rightarrow> None
      | Inr skillsContent \<Rightarrow>
          (case fst (matter e (profileCache e c) skillsContent) of
             Inl x \<Rightarrow> None
           | Inr (data, content) \<Rightarrow>
               (case hasThreeCategories e data of
                  Inl x \<Rightarrow> None
                | Inr c1 \<Rightarrow>
                    (case hasSkilledCategory e data of
                       Inl x \<Rightarrow> None
                     | Inr c2 \<Rightarrow> Some [c1, c2]))))"

text \<open>The points of a section: the weights of the conditions that hold.\<close>

fun earned :: "int list \<Rightarrow> bool list \<Rightarrow> int" where
  "earned [] cs = 0"
| "earned (w # ws) [] = 0"
| "earned (w # ws) (c # cs) = (if c then w else 0) + earned ws cs"

definition sectionPoints :: "int list \<Rightarrow> bool list option \<Rightarrow> int" where
  "sectionPoints ws checks = (case checks of None \<Rightarrow> 0 | Some cs \<Rightarrow> earned ws cs)"

text \<open>The number of \<^verbatim>\<open>.md\<close> entries of a collection; none when there is no directory.\<close>

definition markdownCount :: "env \<Rightarrow> string \<Rightarrow> nat" where
  "markdownCount e name =
     (if existsSync e (contentPath e name)
      then (case readdirSync e (contentPath e name) of
              Inl x \<Rightarrow> 0
            | Inr entries \<Rightarrow> length (markdownFiles entries))
      else 0)"

text \<open>
  The points of a collection: its weight when it has \<open>minFiles\<close> files, half of it,
  rounded down, when it has some but fewer, nothing when it has none.
\<close>

definition collectionPoints :: "int \<Rightarrow> nat \<Rightarrow> nat \<Rightarrow> int" where
  "collectionPoints weight minFiles n =
     (if n \<ge> minFiles then weight else if n > 0 then weight div 2 else 0)"

text \<open>
  One site is at least as complete as another: every scored condition that holds
  there holds here, and no collection has fewer files. A section that cannot be
  evaluated is below every other.
\<close>

definition checksAtMost :: "bool list option \<Rightarrow> bool list option \<Rightarrow> bool" where
  "checksAtMost a b =
     (case a of
        None \<Rightarrow> True
      | Some cs \<Rightarrow>
          (case b of None \<Rightarrow> False | Some ds \<Rightarrow> list_all2 (\<lambda>c d. c \<longrightarrow> d) cs ds))"

definition atLeastAsComplete :: "env \<Rightarrow> matter_cache \<Rightarrow> env \<Rightarrow> matter_cache \<Rightarrow> bool" where
  "atLeastAsComplete a ca b cb =
     (checksAtMost (profileChecks a ca) (profileChecks b cb) \<and>
      checksAtMost (skillsChecks a ca) (skillsChecks b cb) \<and>
      list_all (\<lambda>name. markdownCount a name \<le> markdownCount b name)
        (map fst scoredCollections))"

text \<open>One more entry in the listing of a directory, anywhere in it.\<close>

definition addEntry :: "env \<Rightarrow> string \<Rightarrow> string list \<Rightarrow> string \<Rightarrow> string list \<Rightarrow> env" where
  "addEntry e dir pre f post =
     e\<lparr>readdirSync := (readdirSync e)(dir := Inr (pre @ f # post))\<rparr>"

subsection \<open>The command line\<close>

text \<open>
  A run fails: the summary or the validation raises, or the result is not valid. The
  cache after a run is the one the validation leaves, if the run gets that far.
\<close>

definition validationFails :: "env \<Rightarrow> matter_cache \<Rightarrow> bool" where
  "validationFails e c =
     (case printContentSummary e of
        Inl x \<Rightarrow> True
      | Inr u \<Rightarrow>
          (case fst (validateAllContent e c) of
             Inl x \<Rightarrow> True
           | Inr result \<Rightarrow> \<not> isValid result))"

definition cacheAfterRun :: "env \<Rightarrow> matter_cache \<Rightarrow> matter_cache" where
  "cacheAfterRun e c =
     (case printContentSummary e of
        Inl x \<Rightarrow> c
      | Inr u \<Rightarrow> snd (validateAllContent e c))"

text \<open>Whether each of a sequence of runs in one process passes.\<close>

fun runResults :: "env list \<Rightarrow> matter_cache \<Rightarrow> bool list" where
  "runResults [] c = []"
| "runResults (e # es) c = (\<not> validationFails e c) # runResults es (cacheAfterRun e c)"

section \<open>Sites\<close>

text \<open>
  A site with a valid profile and skills file; three projects, of which \<^verbatim>\<open>a.md\<close> is
  valid with a short body and an image that is not there, \<^verbatim>\<open>b.md\<close> has broken YAML and
  \<^verbatim>\<open>c.md\<close> cannot be read; one experience; a publications directory without content
  files; no education directory.
\<close>

definition demo_join :: "string list \<Rightarrow> string" where
  "demo_join parts = foldr (\<lambda>a b. if b = [] then a else a @ ''/'' @ b) parts []"

definition demo_profile :: yaml where
  "demo_profile = YObj
     [(''name'', YStr ''Ada''), (''title'', YStr ''Engineer''),
      (''bio'', YStr ''Builds models''), (''email'', YStr ''ada@site.org''),
      (''location'', YStr ''Atlanta''), (''profileImage'', YStr ''me.png''),
      (''social'', YObj [(''github'', YStr ''ada'')])]"

definition demo_skill :: "string \<Rightarrow> yaml" where
  "demo_skill name =
     YObj [(''name'', YStr name), (''level'', YStr ''Expert''), (''color'', YStr ''blue'')]"

definition small_category :: yaml where
  "small_category = YObj [(''name'', YStr ''Data''), (''skills'', YArr [demo_skill ''Python''])]"

definition skilled_category :: yaml where
  "skilled_category =
     YObj [(''name'', YStr ''Web''),
           (''skills'', YArr [demo_skill ''HTML'', demo_skill ''CSS'', demo_skill ''Astro''])]"

definition demo_skills :: yaml where
  "demo_skills = YObj [(''categories'', YArr [small_category])]"

definition demo_project :: yaml where
  "demo_project = YObj
     [(''title'', YStr ''Birds''), (''description'', YStr ''Bird sound recognition''),
      (''image'', YStr ''birds.png''), (''tags'', YArr [YStr ''audio''])]"

definition demo_experience :: yaml where
  "demo_experience = YObj
     [(''company'', YStr ''IBM''), (''position'', YStr ''Intern''),
      (''startDate'', YStr ''2021-05''), (''location'', YStr ''Pune''),
      (''logo'', YStr ''ibm.png''), (''achievements'', YArr [YStr ''Shipped''])]"

definition demo_matter :: "string \<Rightarrow> exn + (yaml \<times> string)" where
  "demo_matter s =
     (if s = ''P'' then Inr (demo_profile, ''Hello'')
      else if s = ''S'' then Inr (demo_skills, [])
      else if s = ''A'' then Inr (demo_project, ''Short.'')
      else if s = ''X'' then Inr (demo_experience, ''Short.'')
      else Inl (JsError ''bad indentation of a mapping entry''))"

definition demo_read :: "string \<Rightarrow> exn + string" where
  "demo_read p =
     (if p = ''/site/src/content/profile/main.md'' then Inr ''P''
      else if p = ''/site/src/content/skills/main.md'' then Inr ''S''
      else if p = ''/site/src/content/projects/a.md'' then Inr ''A''
      else if p = ''/site/src/content/projects/b.md'' then Inr ''B''
      else if p = ''/site/src/content/projects/c.md'' then Inl (JsError ''EACCES: permission denied'')
      else if p = ''/site/src/content/projects/d.md'' then Inr ''B''
      else if p = ''/site/src/content/experience/x.md'' then Inr ''X''
      else Inl (JsError ''ENOENT: no such file or directory''))"

definition demo_watch :: "string \<Rightarrow> exn + unit" where
  "demo_watch dir =
     (if dir = ''/site/src/content'' then Inr ()
      else Inl (JsError ''ENOENT: no such file or directory, watch''))"

definition demo_env :: env where
  "demo_env =
     \<lparr>cwd = ''/site'', path_join = demo_join,
      existsSync = (\<lambda>p. p \<in> set
        [''/site/src/content/profile/main.md'', ''/site/src/content/skills/main.md'',
         ''/site/src/content/projects'', ''/site/src/content/projects/a.md'',
         ''/site/src/content/projects/b.md'', ''/site/src/content/projects/c.md'',
         ''/site/src/content/experience'', ''/site/src/content/experience/x.md'',
         ''/site/src/content/publications'', ''/site/public/me.png'']),
      readFileSync = demo_read,
      readdirSync = (\<lambda>p.
        if p = ''/site/src/content/projects''
        then Inr [''a.md'', ''b.md'', ''c.md'', ''notes.txt'', ''.draft.md'']
        else if p = ''/site/src/content/experience'' then Inr [''x.md'']
        else if p = ''/site/src/content/publications'' then Inr [''README.txt'']
        else Inl (JsError ''ENOTDIR: not a directory'')),
      fsWatch = demo_watch,
      stripBom = (\<lambda>s. s),
      parseMatter = demo_matter,
      isEmail = (\<lambda>s. CHR ''@'' \<in> set s),
      isUrl = (\<lambda>s. startsWith s ''http''),
      currentYear = 2026,
      toNumber = (\<lambda>v. Inr NaN)\<rparr>"

text \<open>The same site with the \<^verbatim>\<open>email\<close> of the profile removed.\<close>

definition demo_env_no_email :: env where
  "demo_env_no_email =
     demo_env\<lparr>parseMatter :=
       (\<lambda>s. if s = ''P'' then Inr (removeField ''email'' demo_profile, ''Hello'')
             else demo_matter s)\<rparr>"

text \<open>The same site with the \<^verbatim>\<open>level\<close> of the first skill of the first category removed.\<close>

definition demo_env_no_level :: env where
  "demo_env_no_level =
     demo_env\<lparr>parseMatter :=
       (\<lambda>s. if s = ''S''
             then Inr (removeAt [Key ''categories'', Index 0, Key ''skills'',
                                 Index 0, Key ''level''] demo_skills, [])
             else demo_matter s)\<rparr>"

text \<open>The same site with a profile body of more than a hundred characters.\<close>

definition demo_env_long_body :: env where
  "demo_env_long_body =
     demo_env\<lparr>parseMatter :=
       (\<lambda>s. if s = ''P'' then Inr (demo_profile, replicate 101 (CHR ''x''))
             else demo_matter s)\<rparr>"

text \<open>
  The same site with two skill categories, one of them with three skills, and then
  with a third category in front of them that is an empty list item, which YAML
  reads as \<^verbatim>\<open>null\<close>.
\<close>

definition two_categories :: yaml where
  "two_categories = YObj [(''categories'', YArr [skilled_category, small_category])]"

definition three_categories :: yaml where
  "three_categories = YObj [(''categories'', YArr [YNull, skilled_category, small_category])]"

definition demo_env_two_categories :: env where
  "demo_env_two_categories =
     demo_env\<lparr>parseMatter := (\<lambda>s. if s = ''S'' then Inr (two_categories, []) else demo_matter s)\<rparr>"

definition demo_env_three_categories :: env where
  "demo_env_three_categories =
     demo_env\<lparr>parseMatter := (\<lambda>s. if s = ''S'' then Inr (three_categories, []) else demo_matter s)\<rparr>"


text \<open>
  The site tidied up: the two broken projects are gone, the logo is there, and the
  publications and education directories exist without content files.
\<close>

definition tidy_env :: env where
  "tidy_env =
     \<lparr>cwd = ''/site'', path_join = demo_join,
      existsSync = (\<lambda>p. p \<in> set
        [''/site/src/content/profile/main.md'', ''/site/src/content/skills/main.md'',
         ''/site/src/content/projects'', ''/site/src/content/projects/a.md'',
         ''/site/src/content/experience'', ''/site/src/content/experience/x.md'',
         ''/site/src/content/publications'', ''/site/src/content/education'',
         ''/site/public/me.png'', ''/site/public/ibm.png'']),
      readFileSync = demo_read,
      readdirSync = (\<lambda>p.
        if p = ''/site/src/content/projects'' then Inr [''a.md'']
        else if p = ''/site/src/content/experience'' then Inr [''x.md'']
        else if p = ''/site/src/content/publications'' then Inr []
        else if p = ''/site/src/content/education'' then Inr [''.gitkeep'']
        else Inl (JsError ''ENOTDIR: not a directory'')),
      fsWatch = demo_watch,
      stripBom = (\<lambda>s. s),
      parseMatter = demo_matter,
      isEmail = (\<lambda>s. CHR ''@'' \<in> set s),
      isUrl = (\<lambda>s. startsWith s ''http''),
      currentYear = 2026,
      toNumber = (\<lambda>v. Inr NaN)\<rparr>"

text \<open>A working directory without \<^verbatim>\<open>src/content\<close>: nothing exists in it.\<close>

definition bare_env :: env where
  "bare_env =
     \<lparr>cwd = ''/bare'', path_join = demo_join,
      existsSync = (\<lambda>p. False),
      readFileSync = (\<lambda>p. Inl (JsError ''ENOENT: no such file or directory'')),
      readdirSync = (\<lambda>p. Inl (JsError ''ENOENT: no such file or directory'')),
      fsWatch = (\<lambda>p. Inl (JsError ''ENOENT: no such file or directory, watch'')),
      stripBom = (\<lambda>s. s),
      parseMatter = demo_matter,
      isEmail = (\<lambda>s. CHR ''@'' \<in> set s),
      isUrl = (\<lambda>s. startsWith s ''http''),
      currentYear = 2026,
      toNumber = (\<lambda>v. Inr NaN)\<rparr>"

section \<open>The validator\<close>

subsection \<open>The cache of gray-matter\<close>



lemma matter_first:
  "cacheable e t \<Longrightarrow> c (stripBom e t) = None \<Longrightarrow> parseMatter e (stripBom e t) = Inr parsed \<Longrightarrow>
   matter e c t = (Inr parsed, c(stripBom e t \<mapsto> parsed))"
  by (simp add: matter_def cacheable_def Let_def)


subsection \<open>One file\<close>

text \<open>
  \<^verbatim>\<open>validateContentFile\<close> always returns a result, and the result is valid exactly
  when it lists no error. It leaves the cache as gray-matter left it.
\<close>

lemma validateContentFile_returns: "\<exists>r. fst (validateContentFile e c p s ct) = Inr r"
  unfolding validateContentFile_def
  by (auto split: prod.splits completion.splits simp: Let_def)

lemma validateContentFile_cache: "snd (validateContentFile e c p s ct) = fileCache e c p"
  unfolding validateContentFile_def validateContentFile_try_def fileCache_def textOf_def
  by (auto split: prod.splits completion.splits sum.splits simp: Let_def)

lemma validateContentFile_isValid:
  "fst (validateContentFile e c p s ct) = Inr r \<Longrightarrow> isValid r = (errors r = [])"
  unfolding validateContentFile_def validateContentFile_try_def
  by (auto split: prod.splits completion.splits sum.splits if_splits simp: Let_def)

text \<open>
  What it returns for a file that is not there, cannot be read, or has a front-matter
  that cannot be parsed or is \<^verbatim>\<open>null\<close>.
\<close>

lemma validateContentFile_missing:
  "\<not> existsSync e p \<Longrightarrow>
   fst (validateContentFile e c p s ct) =
     Inr \<lparr>isValid = False,
          errors = [\<lparr>file = p, field = None, message = ct @ '' file not found'',
                     severity = SevError\<rparr>],
          warnings = []\<rparr>"
  by (simp add: validateContentFile_def validateContentFile_try_def Let_def)

lemma validateContentFile_unreadable:
  "existsSync e p \<Longrightarrow> readFileSync e p = Inl x \<Longrightarrow>
   fst (validateContentFile e c p s ct) =
     Inr \<lparr>isValid = False, errors = [parseFailure p x], warnings = []\<rparr>"
  by (simp add: validateContentFile_def validateContentFile_try_def Let_def parseFailure_def)

lemma validateContentFile_malformed:
  "existsSync e p \<Longrightarrow> readFileSync e p = Inr fileContent \<Longrightarrow>
   fst (matter e c fileContent) = Inl x \<Longrightarrow>
   fst (validateContentFile e c p s ct) =
     Inr \<lparr>isValid = False, errors = [parseFailure p x], warnings = []\<rparr>"
  by (cases "matter e c fileContent")
    (simp add: validateContentFile_def validateContentFile_try_def Let_def parseFailure_def)

lemma validateContentFile_unreadable_property:
  "existsSync e p \<Longrightarrow> readFileSync e p = Inr fileContent \<Longrightarrow>
   fst (matter e c fileContent) = Inr (frontmatter, content) \<Longrightarrow>
   js_get frontmatter ''image'' = Inl x \<Longrightarrow>
   \<exists>r. fst (validateContentFile e c p s ct) = Inr r \<and> \<not> isValid r \<and>
       parseFailure p x \<in> set (errors r)"
  by (cases "matter e c fileContent")
    (simp add: validateContentFile_def validateContentFile_try_def Let_def parseFailure_def)

lemma validateContentFile_null:
  "existsSync e p \<Longrightarrow> readFileSync e p = Inr fileContent \<Longrightarrow>
   fst (matter e c fileContent) = Inr (YNull, content) \<Longrightarrow>
   \<exists>r. fst (validateContentFile e c p s ct) = Inr r \<and> \<not> isValid r \<and>
       parseFailure p (typeError_read ''null'' ''image'') \<in> set (errors r)"
  using validateContentFile_unreadable_property [of e p fileContent c YNull content "typeError_read ''null'' ''image''" s ct]
  by simp



text \<open>Every failure of a file is an error of its result.\<close>

lemma validateContentFile_failure:
  assumes "failureOf e c p ct = Some err" and "fst (validateContentFile e c p s ct) = Inr r"
  shows "err \<in> set (errors r) \<and> \<not> isValid r"
proof (cases "existsSync e p")
  case False
  with assms show ?thesis
    by (auto simp: failureOf_def validateContentFile_missing)
next
  case True
  show ?thesis
  proof (cases "readFileSync e p")
    case (Inl x)
    with True assms show ?thesis
      by (auto simp: failureOf_def validateContentFile_unreadable)
  next
    case (Inr t)
    show ?thesis
    proof (cases "fst (matter e c t)")
      case (Inl x)
      with True Inr assms show ?thesis
        by (auto simp: failureOf_def validateContentFile_malformed)
    next
      case inr: (Inr parsed)
      obtain frontmatter content where parsed: "parsed = (frontmatter, content)"
        by (cases parsed)
      show ?thesis
      proof (cases "js_get frontmatter ''image''")
        case (Inl x)
        with True Inr inr parsed assms
          validateContentFile_unreadable_property [of e p t c frontmatter content x s ct]
        show ?thesis
          by (auto simp: failureOf_def)
      next
        case (Inr v)
        with True \<open>readFileSync e p = Inr t\<close> inr parsed assms show ?thesis
          by (simp add: failureOf_def)
      qed
    qed
  qed
qed

text \<open>
  What it returns for a file whose front-matter is an object: the issues of the
  schema as errors, and the warnings of the three checks.
\<close>

lemma validateContentFile_parsed_object:
  assumes "existsSync e filePath" and "readFileSync e filePath = Inr fileContent"
    and "fst (matter e c fileContent) = Inr (YObj kvs, content)"
  shows "\<exists>r. fst (validateContentFile e c filePath sch contentType) = Inr r \<and>
             errors r = map (issue_error filePath) (safeParse e sch (YObj kvs)) \<and>
             isValid r = (safeParse e sch (YObj kvs) = [])"
  using assms
  by (cases "matter e c fileContent")
    (simp add: validateContentFile_def validateContentFile_try_def Let_def)

lemma validateContentFile_parsed:
  assumes "existsSync e filePath" and "readFileSync e filePath = Inr fileContent"
    and "fst (matter e c fileContent) = Inr (YObj kvs, content)"
  shows "fst (validateContentFile e c filePath sch contentType) =
           Inr \<lparr>isValid = (safeParse e sch (YObj kvs) = []),
                errors = map (issue_error filePath) (safeParse e sch (YObj kvs)),
                warnings =
                  (if checksContentLength contentType \<and> length (trim content) < 50
                   then [shortContentWarning filePath contentType] else [])
                  @ assetWarnings e filePath ''image'' ''image'' (own_property kvs ''image'')
                  @ assetWarnings e filePath ''logo'' ''logo'' (own_property kvs ''logo'')\<rparr>"
proof -
  have "content = [] \<Longrightarrow> length (trim content) < 50" by (simp add: trim_def)
  then show ?thesis
    using assms
    by (cases "matter e c fileContent")
      (auto simp: validateContentFile_def validateContentFile_try_def Let_def)
qed

lemma assetWarnings_missing:
  "s \<noteq> [] \<Longrightarrow> \<not> existsSync e (path_join e [cwd e, ''public'', s]) \<Longrightarrow>
   assetWarnings e filePath key what (YStr s) =
     [\<lparr>file = filePath, field = Some key,
       message = ''Referenced '' @ what @ '' file not found: '' @ s\<rparr>]"
  by (simp add: assetWarnings_def)

lemma short_content_warned:
  assumes "existsSync e filePath" and "readFileSync e filePath = Inr fileContent"
    and "fst (matter e c fileContent) = Inr (YObj kvs, content)"
    and "contentType \<in> {''project'', ''publication'', ''experience'', ''education''}"
  shows "\<exists>r. fst (validateContentFile e c filePath sch contentType) = Inr r \<and>
             (shortContentWarning filePath contentType \<in> set (warnings r)
                \<longleftrightarrow> length (trim content) < 50) \<and>
             errors r = map (issue_error filePath) (safeParse e sch (YObj kvs))"
proof -
  have c: "checksContentLength contentType"
    using assms(4) by (auto simp: checksContentLength_def)
  have "shortContentWarning filePath contentType \<notin> set (assetWarnings e filePath k w v)" for k w v
    by (auto simp: assetWarnings_def shortContentWarning_def split: yaml.splits)
  then show ?thesis
    using c by (simp add: validateContentFile_parsed [OF assms(1-3)])
qed

subsection \<open>A collection\<close>

lemma cacheAfter_append: "cacheAfter e c (ps @ qs) = cacheAfter e (cacheAfter e c ps) qs"
  by (induction ps arbitrary: c) simp_all

lemma recordsFailures_append:
  "recordsFailures e c (fs @ gs) errs \<longleftrightarrow>
     recordsFailures e c fs errs \<and> recordsFailures e (cacheAfter e c (map fst fs)) gs errs"
  by (induction fs arbitrary: c) auto

lemma recordsFailures_mono:
  "recordsFailures e c fs errs \<Longrightarrow> set errs \<subseteq> set errs' \<Longrightarrow> recordsFailures e c fs errs'"
  by (induction fs arbitrary: c) (auto split: option.splits)

text \<open>
  The loop over the files of a collection: every file is validated, in order, with
  the cache as the files before it left it, and the errors and warnings are those of
  the files.
\<close>

lemma validateFiles_results:
  "\<exists>rs. length rs = length files \<and>
        (\<forall>i < length files.
           fst (validateContentFile e
                  (cacheAfter e c (take i (map (\<lambda>f. path_join e [cp, f]) files)))
                  (path_join e [cp, files ! i]) s n) = Inr (rs ! i)) \<and>
        validateFiles e c cp s n files E W =
          ((Normal, E @ concat (map errors rs), W @ concat (map warnings rs)),
           cacheAfter e c (map (\<lambda>f. path_join e [cp, f]) files))"
proof (induction files arbitrary: c E W)
  case Nil
  show ?case by simp
next
  case (Cons f files)
  let ?p = "path_join e [cp, f]"
  obtain fr where fr: "fst (validateContentFile e c ?p s n) = Inr fr"
    using validateContentFile_returns by blast
  have v: "validateContentFile e c ?p s n = (Inr fr, fileCache e c ?p)"
    using fr validateContentFile_cache [of e c ?p s n] by (cases "validateContentFile e c ?p s n") simp
  obtain rs where rs:
    "length rs = length files"
    "\<forall>i < length files.
       fst (validateContentFile e
              (cacheAfter e (fileCache e c ?p) (take i (map (\<lambda>f. path_join e [cp, f]) files)))
              (path_join e [cp, files ! i]) s n) = Inr (rs ! i)"
    "validateFiles e (fileCache e c ?p) cp s n files (E @ errors fr) (W @ warnings fr) =
       ((Normal, (E @ errors fr) @ concat (map errors rs), (W @ warnings fr) @ concat (map warnings rs)),
        cacheAfter e (fileCache e c ?p) (map (\<lambda>f. path_join e [cp, f]) files))"
    using Cons.IH [of "fileCache e c ?p" "E @ errors fr" "W @ warnings fr"] by blast
  have each: "\<forall>i < length (f # files).
           fst (validateContentFile e
                  (cacheAfter e c (take i (map (\<lambda>f. path_join e [cp, f]) (f # files))))
                  (path_join e [cp, (f # files) ! i]) s n) = Inr ((fr # rs) ! i)"
  proof (intro allI impI)
    fix i assume i: "i < length (f # files)"
    show "fst (validateContentFile e
                  (cacheAfter e c (take i (map (\<lambda>f. path_join e [cp, f]) (f # files))))
                  (path_join e [cp, (f # files) ! i]) s n) = Inr ((fr # rs) ! i)"
    proof (cases i)
      case 0
      then show ?thesis by (simp add: fr)
    next
      case (Suc j)
      with i rs(2) show ?thesis by simp
    qed
  qed
  show ?case
    apply (rule exI [of _ "fr # rs"])
    apply (intro conjI)
      apply (simp add: rs(1))
     apply (rule each)
    apply (simp add: v rs(3))
    done
qed

lemma validateFiles_records:
  "length rs = length files \<Longrightarrow>
   (\<forall>i < length files.
      fst (validateContentFile e
             (cacheAfter e c (take i (map (\<lambda>f. path_join e [cp, f]) files)))
             (path_join e [cp, files ! i]) s n) = Inr (rs ! i)) \<Longrightarrow>
   recordsFailures e c (map (\<lambda>f. (path_join e [cp, f], n)) files) (concat (map errors rs))"
proof (induction files arbitrary: c rs)
  case Nil
  show ?case by simp
next
  case (Cons f files)
  let ?p = "path_join e [cp, f]"
  obtain fr rs' where rs: "rs = fr # rs'"
    using Cons.prems(1) by (cases rs) auto
  have fr: "fst (validateContentFile e c ?p s n) = Inr fr"
    using Cons.prems(2) [rule_format, of 0] by (simp add: rs)
  have head: "case failureOf e c ?p n of None \<Rightarrow> True | Some err \<Rightarrow> err \<in> set (concat (map errors rs))"
    using validateContentFile_failure [OF _ fr] by (auto simp: rs split: option.splits)
  have "\<forall>i < length files.
      fst (validateContentFile e
             (cacheAfter e (fileCache e c ?p) (take i (map (\<lambda>f. path_join e [cp, f]) files)))
             (path_join e [cp, files ! i]) s n) = Inr (rs' ! i)"
  proof (intro allI impI)
    fix i assume "i < length files"
    then show "fst (validateContentFile e
             (cacheAfter e (fileCache e c ?p) (take i (map (\<lambda>f. path_join e [cp, f]) files)))
             (path_join e [cp, files ! i]) s n) = Inr (rs' ! i)"
      using Cons.prems(2) [rule_format, of "Suc i"] by (simp add: rs)
  qed
  then have "recordsFailures e (fileCache e c ?p) (map (\<lambda>f. (path_join e [cp, f], n)) files)
               (concat (map errors rs'))"
    using Cons.IH [of rs' "fileCache e c ?p"] Cons.prems(1) by (simp add: rs)
  then have tail: "recordsFailures e (fileCache e c ?p) (map (\<lambda>f. (path_join e [cp, f], n)) files)
               (concat (map errors rs))"
    by (rule recordsFailures_mono) (auto simp: rs)
  from head tail show ?case by simp
qed

lemma validateCollection_missing:
  "\<not> existsSync e (contentPath e n) \<Longrightarrow>
   validateCollection e c n s =
     (Inr \<lparr>isValid = False,
           errors = [\<lparr>file = contentPath e n, field = None,
                      message = ''Collection directory not found: '' @ n,
                      severity = SevError\<rparr>],
           warnings = []\<rparr>, c)"
  by (simp add: validateCollection_def validateCollection_try_def Let_def)

lemma validateCollection_unreadable:
  "existsSync e (contentPath e n) \<Longrightarrow> readdirSync e (contentPath e n) = Inl x \<Longrightarrow>
   validateCollection e c n s =
     (Inr \<lparr>isValid = False,
           errors = [\<lparr>file = contentPath e n, field = None,
                      message = ''Failed to read collection directory: '' @ error_message x,
                      severity = SevError\<rparr>],
           warnings = []\<rparr>, c)"
  by (simp add: validateCollection_def validateCollection_try_def Let_def)

lemma validateCollection_listed:
  assumes "existsSync e (contentPath e n)" and "readdirSync e (contentPath e n) = Inr entries"
  shows "\<exists>rs. length rs = length (contentFiles entries) \<and>
          (\<forall>i < length (contentFiles entries).
             fst (validateContentFile e
                    (cacheAfter e c
                       (take i (map (\<lambda>f. path_join e [contentPath e n, f]) (contentFiles entries))))
                    (path_join e [contentPath e n, contentFiles entries ! i]) s n) = Inr (rs ! i)) \<and>
          validateCollection e c n s =
            (Inr \<lparr>isValid = (concat (map errors rs) = []),
                  errors = concat (map errors rs),
                  warnings =
                    (if contentFiles entries = []
                     then [\<lparr>file = contentPath e n, field = None,
                            message = ''No content files found in '' @ n @ '' collection''\<rparr>]
                     else [])
                    @ concat (map warnings rs)\<rparr>,
             cacheAfter e c (map (\<lambda>f. path_join e [contentPath e n, f]) (contentFiles entries)))"
proof -
  let ?W = "(if length (contentFiles entries) = 0
                    then [\<lparr>file = contentPath e n, field = None,
                           message = ''No content files found in '' @ n @ '' collection''\<rparr>]
                    else [])"
  obtain rs where rs:
    "length rs = length (contentFiles entries)"
    "\<forall>i < length (contentFiles entries).
             fst (validateContentFile e
                    (cacheAfter e c
                       (take i (map (\<lambda>f. path_join e [contentPath e n, f]) (contentFiles entries))))
                    (path_join e [contentPath e n, contentFiles entries ! i]) s n) = Inr (rs ! i)"
    "validateFiles e c (contentPath e n) s n (contentFiles entries) [] ?W =
       ((Normal, [] @ concat (map errors rs), ?W @ concat (map warnings rs)),
        cacheAfter e c (map (\<lambda>f. path_join e [contentPath e n, f]) (contentFiles entries)))"
    using validateFiles_results [where e = e and cp = "contentPath e n" and c = c and s = s
        and n = n and files = "contentFiles entries" and E = "[]" and W = ?W] by blast
  show ?thesis
    apply (rule exI [of _ rs])
    apply (intro conjI)
      apply (rule rs(1))
     apply (rule rs(2))
    using rs(3) assms
    apply (simp add: validateCollection_def validateCollection_try_def Let_def)
    done
qed

lemma validateCollection_returns: "\<exists>r. fst (validateCollection e c n s) = Inr r"
proof (cases "existsSync e (contentPath e n)")
  case False
  then show ?thesis by (simp add: validateCollection_missing)
next
  case True
  show ?thesis
  proof (cases "readdirSync e (contentPath e n)")
    case (Inl x)
    with True show ?thesis by (simp add: validateCollection_unreadable)
  next
    case (Inr entries)
    with True validateCollection_listed [of e n entries c s] show ?thesis by auto
  qed
qed

lemma validateCollection_cache:
  "snd (validateCollection e c n s) = cacheAfter e c (map fst (collectionFiles e n))"
proof (cases "existsSync e (contentPath e n)")
  case False
  then show ?thesis by (simp add: validateCollection_missing collectionFiles_def)
next
  case True
  show ?thesis
  proof (cases "readdirSync e (contentPath e n)")
    case (Inl x)
    with True show ?thesis by (simp add: validateCollection_unreadable collectionFiles_def)
  next
    case (Inr entries)
    with True validateCollection_listed [of e n entries c s] show ?thesis
      by (auto simp: collectionFiles_def comp_def)
  qed
qed

lemma validateCollection_isValid:
  "fst (validateCollection e c n s) = Inr r \<Longrightarrow> isValid r = (errors r = [])"
proof (cases "existsSync e (contentPath e n)")
  case False
  assume "fst (validateCollection e c n s) = Inr r"
  with False show ?thesis by (auto simp add: validateCollection_missing)
next
  case True
  assume r: "fst (validateCollection e c n s) = Inr r"
  show ?thesis
  proof (cases "readdirSync e (contentPath e n)")
    case (Inl x)
    with True r show ?thesis by (auto simp add: validateCollection_unreadable)
  next
    case (Inr entries)
    with True r validateCollection_listed [of e n entries c s] show ?thesis by auto
  qed
qed

text \<open>
  The failure of the directory is the one error of the result, and every failure of
  a file of the collection is an error of the result.
\<close>

lemma validateCollection_directory:
  "dirFailureOf e n = Some err \<Longrightarrow> fst (validateCollection e c n s) = Inr r \<Longrightarrow>
   errors r = [err] \<and> \<not> isValid r"
  by (auto simp: dirFailureOf_def validateCollection_missing validateCollection_unreadable
      split: if_splits sum.splits)

lemma validateCollection_records:
  assumes "fst (validateCollection e c n s) = Inr r"
  shows "recordsFailures e c (collectionFiles e n) (errors r)"
proof (cases "existsSync e (contentPath e n)")
  case False
  then show ?thesis by (simp add: collectionFiles_def)
next
  case True
  show ?thesis
  proof (cases "readdirSync e (contentPath e n)")
    case (Inl x)
    with True show ?thesis by (simp add: collectionFiles_def)
  next
    case (Inr entries)
    obtain rs where rs:
      "length rs = length (contentFiles entries)"
      "\<forall>i < length (contentFiles entries).
             fst (validateContentFile e
                    (cacheAfter e c
                       (take i (map (\<lambda>f. path_join e [contentPath e n, f]) (contentFiles entries))))
                    (path_join e [contentPath e n, contentFiles entries ! i]) s n) = Inr (rs ! i)"
      "fst (validateCollection e c n s) =
            Inr \<lparr>isValid = (concat (map errors rs) = []),
                  errors = concat (map errors rs),
                  warnings =
                    (if contentFiles entries = []
                     then [\<lparr>file = contentPath e n, field = None,
                            message = ''No content files found in '' @ n @ '' collection''\<rparr>]
                     else [])
                    @ concat (map warnings rs)\<rparr>"
      using validateCollection_listed [OF True Inr, of c s] by auto
    have "errors r = concat (map errors rs)"
      using rs(3) assms by simp
    then show ?thesis
      using validateFiles_records [OF rs(1,2)] True Inr by (simp add: collectionFiles_def)
  qed
qed

subsection \<open>The whole site\<close>

lemma validateAllContent_parts:
  "\<exists>p s c1 c2 c3 c4 k1 k2 k3 k4 k5 k6.
     validateProfile e c = (Inr p, k1) \<and> validateSkills e k1 = (Inr s, k2) \<and>
     validateCollection e k2 ''projects'' projectSchema = (Inr c1, k3) \<and>
     validateCollection e k3 ''publications'' (publicationSchema e) = (Inr c2, k4) \<and>
     validateCollection e k4 ''experience'' experienceSchema = (Inr c3, k5) \<and>
     validateCollection e k5 ''education'' educationSchema = (Inr c4, k6) \<and>
     validateAllContent e c =
       (Inr \<lparr>isValid = (errors p @ errors s @ errors c1 @ errors c2 @ errors c3 @ errors c4 = []),
             errors = errors p @ errors s @ errors c1 @ errors c2 @ errors c3 @ errors c4,
             warnings = warnings p @ warnings s @ warnings c1 @ warnings c2 @ warnings c3 @ warnings c4\<rparr>,
        k6)"
proof -
  obtain p k1 where p: "validateProfile e c = (Inr p, k1)"
    unfolding validateProfile_def
    using validateContentFile_returns [of e c "profilePath e" profileSchema "''profile''"]
    by (cases "validateContentFile e c (profilePath e) profileSchema ''profile''") auto
  obtain s k2 where s: "validateSkills e k1 = (Inr s, k2)"
    unfolding validateSkills_def
    using validateContentFile_returns [of e k1 "skillsPath e" skillsSchema "''skills''"]
    by (cases "validateContentFile e k1 (skillsPath e) skillsSchema ''skills''") auto
  obtain c1 k3 where c1: "validateCollection e k2 ''projects'' projectSchema = (Inr c1, k3)"
    using validateCollection_returns [of e k2 "''projects''" projectSchema]
    by (cases "validateCollection e k2 ''projects'' projectSchema") auto
  obtain c2 k4 where c2: "validateCollection e k3 ''publications'' (publicationSchema e) = (Inr c2, k4)"
    using validateCollection_returns [of e k3 "''publications''" "publicationSchema e"]
    by (cases "validateCollection e k3 ''publications'' (publicationSchema e)") auto
  obtain c3 k5 where c3: "validateCollection e k4 ''experience'' experienceSchema = (Inr c3, k5)"
    using validateCollection_returns [of e k4 "''experience''" experienceSchema]
    by (cases "validateCollection e k4 ''experience'' experienceSchema") auto
  obtain c4 k6 where c4: "validateCollection e k5 ''education'' educationSchema = (Inr c4, k6)"
    using validateCollection_returns [of e k5 "''education''" educationSchema]
    by (cases "validateCollection e k5 ''education'' educationSchema") auto
  show ?thesis
    apply (rule exI [of _ p], rule exI [of _ s], rule exI [of _ c1], rule exI [of _ c2],
        rule exI [of _ c3], rule exI [of _ c4], rule exI [of _ k1], rule exI [of _ k2],
        rule exI [of _ k3], rule exI [of _ k4], rule exI [of _ k5], rule exI [of _ k6])
    by (simp add: p s c1 c2 c3 c4 validateAllContent_def collections_def)
qed

lemma validateAllContent_returns: "\<exists>r. fst (validateAllContent e c) = Inr r"
  using validateAllContent_parts [of e c] by auto

lemma validateAllContent_isValid:
  "fst (validateAllContent e c) = Inr r \<Longrightarrow> isValid r = (errors r = [])"
  using validateAllContent_parts [of e c] by auto

text \<open>
  Every failure of a file that the validation of the site visits, and every failure
  of the directory of a collection, is an error of the result.
\<close>

lemma validateAllContent_records:
  assumes "fst (validateAllContent e c) = Inr r"
  shows "recordsFailures e c (visitedFiles e) (errors r) \<and>
         (\<forall>name err. name \<in> set (map fst (collections e)) \<and> dirFailureOf e name = Some err \<longrightarrow>
            err \<in> set (errors r))"
proof -
  obtain p s c1 c2 c3 c4 k1 k2 k3 k4 k5 k6 where parts:
    "validateProfile e c = (Inr p, k1)" "validateSkills e k1 = (Inr s, k2)"
    "validateCollection e k2 ''projects'' projectSchema = (Inr c1, k3)"
    "validateCollection e k3 ''publications'' (publicationSchema e) = (Inr c2, k4)"
    "validateCollection e k4 ''experience'' experienceSchema = (Inr c3, k5)"
    "validateCollection e k5 ''education'' educationSchema = (Inr c4, k6)"
    "validateAllContent e c =
       (Inr \<lparr>isValid = (errors p @ errors s @ errors c1 @ errors c2 @ errors c3 @ errors c4 = []),
             errors = errors p @ errors s @ errors c1 @ errors c2 @ errors c3 @ errors c4,
             warnings = warnings p @ warnings s @ warnings c1 @ warnings c2 @ warnings c3 @ warnings c4\<rparr>,
        k6)"
    using validateAllContent_parts [of e c] by blast
  have r: "errors r = errors p @ errors s @ errors c1 @ errors c2 @ errors c3 @ errors c4"
    using parts(7) assms by auto
  have k1: "k1 = fileCache e c (profilePath e)"
    using parts(1) validateContentFile_cache [of e c "profilePath e" profileSchema "''profile''"]
    by (simp add: validateProfile_def)
  have k2: "k2 = fileCache e k1 (skillsPath e)"
    using parts(2) validateContentFile_cache [of e k1 "skillsPath e" skillsSchema "''skills''"]
    by (simp add: validateSkills_def)
  have k3: "k3 = cacheAfter e k2 (map fst (collectionFiles e ''projects''))"
    using parts(3) validateCollection_cache [of e k2 "''projects''" projectSchema] by simp
  have k4: "k4 = cacheAfter e k3 (map fst (collectionFiles e ''publications''))"
    using parts(4) validateCollection_cache [of e k3 "''publications''" "publicationSchema e"] by simp
  have k5: "k5 = cacheAfter e k4 (map fst (collectionFiles e ''experience''))"
    using parts(5) validateCollection_cache [of e k4 "''experience''" experienceSchema] by simp
  have fp: "case failureOf e c (profilePath e) ''profile'' of None \<Rightarrow> True
            | Some err \<Rightarrow> err \<in> set (errors r)"
    using validateContentFile_failure [of e c "profilePath e" "''profile''" _ profileSchema p] parts(1)
    by (auto simp: validateProfile_def r split: option.splits)
  have fs: "case failureOf e k1 (skillsPath e) ''skills'' of None \<Rightarrow> True
            | Some err \<Rightarrow> err \<in> set (errors r)"
    using validateContentFile_failure [of e k1 "skillsPath e" "''skills''" _ skillsSchema s] parts(2)
    by (auto simp: validateSkills_def r split: option.splits)
  have f1: "recordsFailures e k2 (collectionFiles e ''projects'') (errors r)"
    using validateCollection_records [of e k2 "''projects''" projectSchema c1] parts(3)
    by (auto intro: recordsFailures_mono simp: r)
  have f2: "recordsFailures e k3 (collectionFiles e ''publications'') (errors r)"
    using validateCollection_records [of e k3 "''publications''" "publicationSchema e" c2] parts(4)
    by (auto intro: recordsFailures_mono simp: r)
  have f3: "recordsFailures e k4 (collectionFiles e ''experience'') (errors r)"
    using validateCollection_records [of e k4 "''experience''" experienceSchema c3] parts(5)
    by (auto intro: recordsFailures_mono simp: r)
  have f4: "recordsFailures e k5 (collectionFiles e ''education'') (errors r)"
    using validateCollection_records [of e k5 "''education''" educationSchema c4] parts(6)
    by (auto intro: recordsFailures_mono simp: r)
  have files: "recordsFailures e c (visitedFiles e) (errors r)"
    using fp fs f1 f2 f3 f4
    by (simp add: visitedFiles_def collections_def recordsFailures_append cacheAfter_append
        k1 k2 k3 k4 k5)
  have d1: "dirFailureOf e ''projects'' = Some err \<longrightarrow> err \<in> set (errors r)" for err
    using validateCollection_directory [of e "''projects''" err k2 projectSchema c1] parts(3)
    by (auto simp: r)
  have d2: "dirFailureOf e ''publications'' = Some err \<longrightarrow> err \<in> set (errors r)" for err
    using validateCollection_directory [of e "''publications''" err k3 "publicationSchema e" c2] parts(4)
    by (auto simp: r)
  have d3: "dirFailureOf e ''experience'' = Some err \<longrightarrow> err \<in> set (errors r)" for err
    using validateCollection_directory [of e "''experience''" err k4 experienceSchema c3] parts(5)
    by (auto simp: r)
  have d4: "dirFailureOf e ''education'' = Some err \<longrightarrow> err \<in> set (errors r)" for err
    using validateCollection_directory [of e "''education''" err k5 educationSchema c4] parts(6)
    by (auto simp: r)
  have dirs: "\<forall>name err. name \<in> set (map fst (collections e)) \<and> dirFailureOf e name = Some err \<longrightarrow>
            err \<in> set (errors r)"
    using d1 d2 d3 d4 by (auto simp: collections_def)
  from files dirs show ?thesis by blast
qed

subsection \<open>The listing of a directory does not matter to a file\<close>

lemma check_string_readdir [simp]:
  "check_string (e\<lparr>readdirSync := f\<rparr>) p s c = check_string e p s c"
  by (cases c) simp_all

lemma zod_parse_readdir [simp]:
  "zod_parse (e\<lparr>readdirSync := f\<rparr>) s p v = zod_parse e s p v"
proof (induction e s p v rule: zod_parse.induct)
  case (5 e element minLength p v)
  then show ?case by (auto split: yaml.splits option.splits intro!: arg_cong [where f = concat])
next
  case (6 e shape p v)
  then show ?case by (auto split: yaml.splits intro!: arg_cong [where f = concat])
qed (auto split: yaml.splits cong: map_cong)

lemma assetWarnings_readdir [simp]:
  "assetWarnings (e\<lparr>readdirSync := f\<rparr>) p k w v = assetWarnings e p k w v"
  by (simp add: assetWarnings_def split: yaml.splits)

lemma safeParse_readdir [simp]:
  "safeParse (e\<lparr>readdirSync := f\<rparr>) s v = safeParse e s v"
  by (simp add: safeParse_def)

lemma matter_readdir [simp]:
  "matter (e\<lparr>readdirSync := f\<rparr>) c t = matter e c t"
  by (simp add: matter_def Let_def split: option.splits)

lemma validateContentFile_try_readdir [simp]:
  "validateContentFile_try (e\<lparr>readdirSync := f\<rparr>) c p s ct = validateContentFile_try e c p s ct"
  by (simp add: validateContentFile_try_def Let_def split: sum.splits prod.splits)

lemma validateContentFile_readdir [simp]:
  "validateContentFile (e\<lparr>readdirSync := f\<rparr>) c p s ct = validateContentFile e c p s ct"
  by (simp add: validateContentFile_def)

lemma validateFiles_readdir [simp]:
  "validateFiles (e\<lparr>readdirSync := f\<rparr>) c cp s n files E W = validateFiles e c cp s n files E W"
  by (induction files arbitrary: c E W) (simp_all split: sum.splits prod.splits)

lemma contentFiles_idem: "contentFiles (contentFiles entries) = contentFiles entries"
  by (simp add: contentFiles_def)

subsection \<open>Schemas\<close>

lemma required_undefined:
  "required s \<Longrightarrow> \<exists>m. zod_parse e s p YUndefined = [\<lparr>issue_path = p, issue_message = m\<rparr>]"
  by (cases s) (simp_all add: invalid_type_def)

lemma own_property_removed: "own_property (filter (\<lambda>kv. fst kv \<noteq> k) kvs) k = YUndefined"
proof -
  have "map_of (filter (\<lambda>kv. fst kv \<noteq> k) kvs) k = None"
    by (induction kvs) auto
  then show ?thesis by (simp add: own_property_def)
qed

lemma object_issue_of_missing:
  assumes "(k, s) \<in> set shape" and "required s" and "own_property kvs k = YUndefined"
  shows "\<exists>i \<in> set (zod_parse e (ZObject shape) p (YObj kvs)). issue_path i = p @ [Key k]"
proof -
  obtain m where m: "zod_parse e s (p @ [Key k]) YUndefined = [\<lparr>issue_path = p @ [Key k], issue_message = m\<rparr>]"
    using required_undefined [OF assms(2)] by blast
  have "\<lparr>issue_path = p @ [Key k], issue_message = m\<rparr>
          \<in> set (zod_parse e (ZObject shape) p (YObj kvs))"
    using assms(1) assms(3) m by (force simp: image_iff)
  then show ?thesis by force
qed

lemma requiredAt_container:
  "requiredAt s q v \<Longrightarrow> q \<noteq> [] \<and> ((\<exists>kvs. v = YObj kvs) \<or> (\<exists>xs. v = YArr xs))"
  by (induction s q v rule: requiredAt.induct) (auto split: option.splits if_splits)

lemma removeAt_container:
  "(\<exists>kvs. v = YObj kvs) \<or> (\<exists>xs. v = YArr xs) \<Longrightarrow> removeAt q v \<noteq> YUndefined"
  by (induction q v rule: removeAt.induct) auto

lemma removeAt_undefined: "removeAt q YUndefined = YUndefined"
  by (cases "(q, YUndefined)" rule: removeAt.cases) simp_all

lemma own_property_map:
  "own_property (map (\<lambda>kv. if fst kv = k then (k, removeAt q (snd kv)) else kv) kvs) k
     = removeAt q (own_property kvs k)"
proof -
  have "map_of (map (\<lambda>kv. if fst kv = k then (k, removeAt q (snd kv)) else kv) kvs) k
          = map_option (removeAt q) (map_of kvs k)"
    by (induction kvs) auto
  then show ?thesis
    by (simp add: own_property_def removeAt_undefined split: option.splits)
qed

lemma removeAt_deeper:
  "q \<noteq> [] \<Longrightarrow>
   removeAt (Key k # q) (YObj kvs) =
     YObj (map (\<lambda>kv. if fst kv = k then (k, removeAt q (snd kv)) else kv) kvs)"
  by (cases q) simp_all

lemma required_issue_at:
  "requiredAt s q v \<Longrightarrow> \<exists>i \<in> set (zod_parse e s p (removeAt q v)). issue_path i = p @ q"
proof (induction s q v arbitrary: p rule: requiredAt.induct)
  case (1 shape k q kvs)
  then obtain s where s: "map_of shape k = Some s" "(k, s) \<in> set shape"
    by (auto split: option.splits dest: map_of_SomeD)
  show ?case
  proof (cases "q = []")
    case True
    with 1(2) s have "required s" by simp
    from object_issue_of_missing [OF s(2) this own_property_removed, of e p kvs] True
    show ?thesis by simp
  next
    case False
    with 1(2) s have "requiredAt s q (own_property kvs k)" by simp
    from 1(1) [OF s(1) False this, of "p @ [Key k]"]
    obtain i where i: "i \<in> set (zod_parse e s (p @ [Key k]) (removeAt q (own_property kvs k)))"
      "issue_path i = (p @ [Key k]) @ q" by blast
    have "i \<in> set (zod_parse e (ZObject shape) p (removeAt (Key k # q) (YObj kvs)))"
      using s(2) i(1) by (force simp: removeAt_deeper [OF False] own_property_map)
    with i(2) show ?thesis by auto
  qed
next
  case (2 element minLength i q xs)
  then have lt: "i < length xs" and r: "requiredAt element q (xs ! i)" by simp_all
  from 2(1) [OF r, of "p @ [Index i]"]
  obtain j where j: "j \<in> set (zod_parse e element (p @ [Index i]) (removeAt q (xs ! i)))"
    "issue_path j = (p @ [Index i]) @ q" by blast
  have "(i, removeAt q (xs ! i)) \<in> set (enumerate 0 (xs[i := removeAt q (xs ! i)]))"
    using lt by (simp add: in_set_enumerate_eq)
  with j(1) lt have "j \<in> set (zod_parse e (ZArray element minLength) p (removeAt (Index i # q) (YArr xs)))"
    by force
  with j(2) show ?case by auto
next
  case (3 inner q v)
  then show ?case
    using requiredAt_container [of inner q v] removeAt_container [of v q] by auto
next
  case (4 inner d q v)
  then show ?case
    using requiredAt_container [of inner q v] removeAt_container [of v q] by auto
qed simp_all

lemma object_schema_accepts_object:
  "zod_parse e (ZObject shape) p v = [] \<Longrightarrow> \<exists>kvs. v = YObj kvs"
  by (cases v) (simp_all)

lemma path_string_key: "path_string [Key k] = k"
  by (simp add: path_string_def)

lemma contentSchemas_objects: "sch \<in> set (contentSchemas e) \<Longrightarrow> \<exists>shape. sch = ZObject shape"
  by (auto simp: contentSchemas_def profileSchema_def skillsSchema_def projectSchema_def
      publicationSchema_def experienceSchema_def educationSchema_def)

lemma requiredFields_profile:
  "requiredFields profileSchema =
     [''name'', ''title'', ''bio'', ''email'', ''location'', ''profileImage'', ''social'']"
  by (simp add: requiredFields_def profileSchema_def)

lemma requiredFields_project:
  "requiredFields projectSchema = [''title'', ''description'', ''image'', ''tags'']"
  by (simp add: requiredFields_def projectSchema_def)

subsection \<open>The sites, evaluated\<close>

lemma demo_profile_file:
  "existsSync demo_env ''/site/src/content/profile/main.md''"
  "readFileSync demo_env ''/site/src/content/profile/main.md'' = Inr ''P''"
  "fst (matter demo_env Map.empty ''P'') = Inr (demo_profile, ''Hello'')"
  "profileSchema \<in> set (contentSchemas demo_env)"
  "safeParse demo_env profileSchema demo_profile = []"
  by code_simp+

lemma demo_no_email_file:
  "existsSync demo_env_no_email ''/site/src/content/profile/main.md''"
  "readFileSync demo_env_no_email ''/site/src/content/profile/main.md'' = Inr ''P''"
  "fst (matter demo_env_no_email Map.empty ''P'') = Inr (removeField ''email'' demo_profile, ''Hello'')"
  "profileSchema \<in> set (contentSchemas demo_env_no_email)"
  "safeParse demo_env_no_email profileSchema demo_profile = []"
  "''email'' \<in> set (requiredFields profileSchema)"
  by code_simp+

lemma demo_no_level_file:
  "existsSync demo_env_no_level ''/site/src/content/skills/main.md''"
  "readFileSync demo_env_no_level ''/site/src/content/skills/main.md'' = Inr ''S''"
  "fst (matter demo_env_no_level Map.empty ''S'') =
     Inr (removeAt [Key ''categories'', Index 0, Key ''skills'', Index 0, Key ''level''] demo_skills, [])"
  "skillsSchema \<in> set (contentSchemas demo_env_no_level)"
  "safeParse demo_env_no_level skillsSchema demo_skills = []"
  "requiredAt skillsSchema [Key ''categories'', Index 0, Key ''skills'', Index 0, Key ''level'']
     demo_skills"
  "path_string [Key ''categories'', Index 0, Key ''skills'', Index 0, Key ''level'']
     = ''categories.0.skills.0.level''"
  by code_simp+

lemma demo_all:
  "fst (validateAllContent demo_env Map.empty) =
     Inr \<lparr>isValid = False,
          errors =
            [parseFailure ''/site/src/content/projects/b.md''
               (JsError ''bad indentation of a mapping entry''),
             parseFailure ''/site/src/content/projects/c.md'' (JsError ''EACCES: permission denied''),
             \<lparr>file = ''/site/src/content/education'', field = None,
               message = ''Collection directory not found: education'', severity = SevError\<rparr>],
          warnings =
            [\<lparr>file = ''/site/src/content/projects/a.md'', field = Some ''image'',
               message = ''Referenced image file not found: birds.png''\<rparr>,
             \<lparr>file = ''/site/src/content/publications'', field = None,
               message = ''No content files found in publications collection''\<rparr>,
             shortContentWarning ''/site/src/content/experience/x.md'' ''experience'',
             \<lparr>file = ''/site/src/content/experience/x.md'', field = Some ''logo'',
               message = ''Referenced logo file not found: ibm.png''\<rparr>]\<rparr>"
  by code_simp

lemma tidy_all:
  "fst (validateAllContent tidy_env Map.empty) =
     Inr \<lparr>isValid = True, errors = [],
          warnings =
            [\<lparr>file = ''/site/src/content/projects/a.md'', field = Some ''image'',
               message = ''Referenced image file not found: birds.png''\<rparr>,
             \<lparr>file = ''/site/src/content/publications'', field = None,
               message = ''No content files found in publications collection''\<rparr>,
             shortContentWarning ''/site/src/content/experience/x.md'' ''experience'',
             \<lparr>file = ''/site/src/content/education'', field = None,
               message = ''No content files found in education collection''\<rparr>]\<rparr>"
  by code_simp

lemma demo_publications_dir:
  "existsSync demo_env (contentPath demo_env ''publications'')"
  "readdirSync demo_env (contentPath demo_env ''publications'') = Inr [''README.txt'']"
  "contentFiles [''README.txt''] = []"
  "contentPath demo_env ''publications'' = ''/site/src/content/publications''"
  by code_simp+

subsection \<open>Schema round trip\<close>

text \<open>
  C1. Take a file that exists and parses, and one of the six content schemas. If the
  front-matter satisfies the schema, \<^verbatim>\<open>validateContentFile\<close> returns a valid result
  without errors. If the front-matter is a record that satisfies the schema with one
  of its required fields removed, the result is not valid and has an error whose
  \<^verbatim>\<open>field\<close> is the name of that field. The same holds for a required field deeper in
  the front-matter, in an object of an array or of another object: the \<^verbatim>\<open>field\<close> of
  the error is then its path, joined with dots.
\<close>

theorem schema_round_trip:
  assumes "existsSync e filePath"
    and "readFileSync e filePath = Inr fileContent"
    and "fst (matter e c fileContent) = Inr (frontmatter, content)"
    and "sch \<in> set (contentSchemas e)"
  shows "(safeParse e sch frontmatter = [] \<longrightarrow>
           (\<exists>r. fst (validateContentFile e c filePath sch contentType) = Inr r \<and>
                 errors r = [] \<and> isValid r)) \<and>
         (\<forall>k valid. k \<in> set (requiredFields sch) \<and> safeParse e sch valid = [] \<and>
                     frontmatter = removeField k valid \<longrightarrow>
           (\<exists>r. fst (validateContentFile e c filePath sch contentType) = Inr r \<and>
                 \<not> isValid r \<and> (\<exists>err \<in> set (errors r). field err = Some k))) \<and>
         (\<forall>q valid. requiredAt sch q valid \<and> safeParse e sch valid = [] \<and>
                     frontmatter = removeAt q valid \<longrightarrow>
           (\<exists>r. fst (validateContentFile e c filePath sch contentType) = Inr r \<and>
                 \<not> isValid r \<and> (\<exists>err \<in> set (errors r). field err = Some (path_string q))))"
proof -
  obtain shape where shape: "sch = ZObject shape"
    using contentSchemas_objects [OF assms(4)] by blast
  have first: "safeParse e sch frontmatter = [] \<longrightarrow>
           (\<exists>r. fst (validateContentFile e c filePath sch contentType) = Inr r \<and>
                 errors r = [] \<and> isValid r)"
  proof
    assume ok: "safeParse e sch frontmatter = []"
    then obtain kvs where kvs: "frontmatter = YObj kvs"
      unfolding safeParse_def shape using object_schema_accepts_object by blast
    from validateContentFile_parsed_object [OF assms(1,2) assms(3) [unfolded kvs], of sch contentType]
    show "\<exists>r. fst (validateContentFile e c filePath sch contentType) = Inr r \<and> errors r = [] \<and> isValid r"
      using ok kvs by auto
  qed
  have issue: "\<exists>r. fst (validateContentFile e c filePath sch contentType) = Inr r \<and>
                 \<not> isValid r \<and> (\<exists>err \<in> set (errors r). field err = Some (path_string q))"
    if fm: "frontmatter = YObj kvs'"
      and i: "i \<in> set (safeParse e sch (YObj kvs'))" "issue_path i = q" for kvs' i q
  proof -
    obtain r where r: "fst (validateContentFile e c filePath sch contentType) = Inr r"
      "errors r = map (issue_error filePath) (safeParse e sch (YObj kvs'))"
      "isValid r = (safeParse e sch (YObj kvs') = [])"
      using validateContentFile_parsed_object [OF assms(1,2) assms(3) [unfolded fm], of sch contentType]
      by blast
    have "issue_error filePath i \<in> set (errors r)" using i(1) r(2) by simp
    moreover have "field (issue_error filePath i) = Some (path_string q)"
      by (simp add: issue_error_def i(2))
    moreover have "\<not> isValid r" using r(3) i(1) by auto
    ultimately show ?thesis using r(1) by blast
  qed
  have second: "\<exists>r. fst (validateContentFile e c filePath sch contentType) = Inr r \<and>
                 \<not> isValid r \<and> (\<exists>err \<in> set (errors r). field err = Some k)"
    if k: "k \<in> set (requiredFields sch)" and ok: "safeParse e sch valid = []"
      and fm: "frontmatter = removeField k valid" for k valid
  proof -
    obtain kvs where kvs: "valid = YObj kvs"
      using ok unfolding safeParse_def shape using object_schema_accepts_object by blast
    let ?kvs' = "filter (\<lambda>kv. fst kv \<noteq> k) kvs"
    have fm': "frontmatter = YObj ?kvs'" by (simp add: fm kvs removeField_def)
    obtain s where s: "(k, s) \<in> set shape" "required s"
      using k by (auto simp: requiredFields_def shape)
    obtain i where i: "i \<in> set (safeParse e sch (YObj ?kvs'))" "issue_path i = [Key k]"
      using object_issue_of_missing [OF s own_property_removed, of e "[]" kvs]
      unfolding safeParse_def shape by auto
    from issue [OF fm' i] show ?thesis by (simp add: path_string_key)
  qed
  have third: "\<exists>r. fst (validateContentFile e c filePath sch contentType) = Inr r \<and>
                 \<not> isValid r \<and> (\<exists>err \<in> set (errors r). field err = Some (path_string q))"
    if at: "requiredAt sch q valid" and fm: "frontmatter = removeAt q valid" for q valid
  proof -
    obtain kvs where kvs: "valid = YObj kvs"
      using at unfolding shape by (cases "(ZObject shape, q, valid)" rule: requiredAt.cases) auto
    obtain kvs' where fm': "frontmatter = YObj kvs'"
      unfolding fm kvs by (cases "(q, YObj kvs)" rule: removeAt.cases) auto
    obtain i where i: "i \<in> set (safeParse e sch frontmatter)" "issue_path i = q"
      using required_issue_at [OF at, of e "[]"] unfolding safeParse_def fm by auto
    from issue [OF fm' i [unfolded fm']] show ?thesis .
  qed
  from first second third show ?thesis by blast
qed

text \<open>
  The profile of the first site passes; without its \<^verbatim>\<open>email\<close> it fails, with an error
  on \<^verbatim>\<open>email\<close>. The skills without the \<^verbatim>\<open>level\<close> of the first skill fail, with an
  error on \<^verbatim>\<open>categories.0.skills.0.level\<close>.
\<close>

theorem schema_round_trip_witness:
  "(\<exists>r. fst (validateContentFile demo_env Map.empty ''/site/src/content/profile/main.md'' profileSchema ''profile'')
          = Inr r \<and> errors r = [] \<and> isValid r) \<and>
   (\<exists>r. fst (validateContentFile demo_env_no_email Map.empty ''/site/src/content/profile/main.md'' profileSchema
          ''profile'') = Inr r \<and>
        \<not> isValid r \<and> (\<exists>err \<in> set (errors r). field err = Some ''email'')) \<and>
   (\<exists>r. fst (validateContentFile demo_env_no_level Map.empty ''/site/src/content/skills/main.md'' skillsSchema
          ''skills'') = Inr r \<and>
        \<not> isValid r \<and>
        (\<exists>err \<in> set (errors r). field err = Some ''categories.0.skills.0.level''))"
proof -
  note whole = schema_round_trip [OF demo_profile_file(1-4), of "''profile''"]
  note less = schema_round_trip [OF demo_no_email_file(1-4), of "''profile''"]
  note deep = schema_round_trip [OF demo_no_level_file(1-4), of "''skills''"]
  from whole demo_profile_file(5)
  have "\<exists>r. fst (validateContentFile demo_env Map.empty ''/site/src/content/profile/main.md'' profileSchema ''profile'')
          = Inr r \<and> errors r = [] \<and> isValid r"
    by blast
  moreover from less demo_no_email_file(5,6)
  have "\<exists>r. fst (validateContentFile demo_env_no_email Map.empty ''/site/src/content/profile/main.md'' profileSchema
          ''profile'') = Inr r \<and>
        \<not> isValid r \<and> (\<exists>err \<in> set (errors r). field err = Some ''email'')"
    by blast
  moreover from deep demo_no_level_file(5,6)
  have "\<exists>r. fst (validateContentFile demo_env_no_level Map.empty ''/site/src/content/skills/main.md'' skillsSchema
          ''skills'') = Inr r \<and>
        \<not> isValid r \<and>
        (\<exists>err \<in> set (errors r).
           field err = Some (path_string [Key ''categories'', Index 0, Key ''skills'', Index 0,
                                          Key ''level'']))"
    by blast
  ultimately show ?thesis unfolding demo_no_level_file(7) by blast
qed

lemma demo_failures:
  "\<not> existsSync demo_env ''/site/src/content/education/e.md''"
  "existsSync demo_env ''/site/src/content/projects/c.md''"
  "readFileSync demo_env ''/site/src/content/projects/c.md'' = Inl (JsError ''EACCES: permission denied'')"
  "existsSync demo_env ''/site/src/content/projects/b.md''"
  "readFileSync demo_env ''/site/src/content/projects/b.md'' = Inr ''B''"
  "fst (matter demo_env Map.empty ''B'') = Inl (JsError ''bad indentation of a mapping entry'')"
  "\<not> existsSync demo_env (contentPath demo_env ''education'')"
  "existsSync demo_env (contentPath demo_env ''profile/main.md'')"
  "readdirSync demo_env (contentPath demo_env ''profile/main.md'') = Inl (JsError ''ENOTDIR: not a directory'')"
  by code_simp+

lemma demo_failure_entries:
  "failureOf demo_env Map.empty ''/site/src/content/projects/c.md'' ''projects'' =
     Some (parseFailure ''/site/src/content/projects/c.md'' (JsError ''EACCES: permission denied''))"
  "dirFailureOf demo_env ''education'' =
     Some \<lparr>file = ''/site/src/content/education'', field = None,
           message = ''Collection directory not found: education'', severity = SevError\<rparr>"
  "''education'' \<in> set (map fst (collections demo_env))"
  "visitedFiles demo_env =
     [(''/site/src/content/profile/main.md'', ''profile''),
      (''/site/src/content/skills/main.md'', ''skills''),
      (''/site/src/content/projects/a.md'', ''projects''),
      (''/site/src/content/projects/b.md'', ''projects''),
      (''/site/src/content/projects/c.md'', ''projects''),
      (''/site/src/content/experience/x.md'', ''experience'')]"
  "failureOf demo_env
     (cacheAfter demo_env Map.empty
        [''/site/src/content/profile/main.md'', ''/site/src/content/skills/main.md'',
         ''/site/src/content/projects/a.md''])
     ''/site/src/content/projects/b.md'' ''projects'' =
     Some (parseFailure ''/site/src/content/projects/b.md''
             (JsError ''bad indentation of a mapping entry''))"
  by code_simp+


subsection \<open>No exception leaves the validator\<close>

text \<open>
  C3. In every environment and with every state of the cache, \<^verbatim>\<open>validateContentFile\<close>,
  \<^verbatim>\<open>validateCollection\<close> and \<^verbatim>\<open>validateAllContent\<close> return a result, and every
  failure is an error of that result, which is then not valid.

  \<^item> For a file: a file that is not there, a file that cannot be read, a text that
    gray-matter raises on, and a front-matter of which no property can be read each
    give their entry. In the first three cases it is the only error of the result.
  \<^item> For a collection: a directory that is not there and a directory that cannot be
    listed each give the one error of the result; and the errors record the
    failure of every content file of the listing, each file met with the cache as
    the files before it left it.
  \<^item> For the site: the errors record the failure of the profile, of the skills and
    of every content file of the four collections, in the order of the run, and
    the failure of the directory of every collection.
\<close>

theorem validator_never_throws:
  "(\<exists>r. fst (validateContentFile e c filePath sch contentType) = Inr r \<and>
        (\<forall>err. failureOf e c filePath contentType = Some err \<longrightarrow>
           err \<in> set (errors r) \<and> \<not> isValid r) \<and>
        (\<not> existsSync e filePath \<longrightarrow>
           errors r = [\<lparr>file = filePath, field = None,
                         message = contentType @ '' file not found'', severity = SevError\<rparr>]) \<and>
        (\<forall>x. existsSync e filePath \<and> readFileSync e filePath = Inl x \<longrightarrow>
           errors r = [parseFailure filePath x]) \<and>
        (\<forall>x fileContent. existsSync e filePath \<and> readFileSync e filePath = Inr fileContent \<and>
             fst (matter e c fileContent) = Inl x \<longrightarrow>
           errors r = [parseFailure filePath x])) \<and>
   (\<exists>r. fst (validateCollection e c name sch) = Inr r \<and>
        (\<forall>err. dirFailureOf e name = Some err \<longrightarrow> errors r = [err] \<and> \<not> isValid r) \<and>
        (\<not> existsSync e (contentPath e name) \<longrightarrow>
           errors r = [\<lparr>file = contentPath e name, field = None,
                         message = ''Collection directory not found: '' @ name,
                         severity = SevError\<rparr>]) \<and>
        (\<forall>x. existsSync e (contentPath e name) \<and> readdirSync e (contentPath e name) = Inl x \<longrightarrow>
           errors r = [\<lparr>file = contentPath e name, field = None,
                         message = ''Failed to read collection directory: '' @ error_message x,
                         severity = SevError\<rparr>]) \<and>
        recordsFailures e c (collectionFiles e name) (errors r)) \<and>
   (\<exists>r. fst (validateAllContent e c) = Inr r \<and>
        recordsFailures e c (visitedFiles e) (errors r) \<and>
        (\<forall>dir err. dir \<in> set (map fst (collections e)) \<and> dirFailureOf e dir = Some err \<longrightarrow>
           err \<in> set (errors r) \<and> \<not> isValid r))"
proof -
  obtain r1 where r1: "fst (validateContentFile e c filePath sch contentType) = Inr r1"
    using validateContentFile_returns by blast
  have a0: "\<forall>err. failureOf e c filePath contentType = Some err \<longrightarrow>
           err \<in> set (errors r1) \<and> \<not> isValid r1"
    using validateContentFile_failure [OF _ r1] by blast
  have a: "\<not> existsSync e filePath \<longrightarrow>
           errors r1 = [\<lparr>file = filePath, field = None,
                         message = contentType @ '' file not found'', severity = SevError\<rparr>]"
    using r1 by (auto simp: validateContentFile_missing)
  have b: "\<forall>x. existsSync e filePath \<and> readFileSync e filePath = Inl x \<longrightarrow>
           errors r1 = [parseFailure filePath x]"
    using r1 by (auto simp: validateContentFile_unreadable)
  have c: "\<forall>x fileContent. existsSync e filePath \<and> readFileSync e filePath = Inr fileContent \<and>
             fst (matter e c fileContent) = Inl x \<longrightarrow> errors r1 = [parseFailure filePath x]"
    using r1 by (auto simp: validateContentFile_malformed)
  obtain r2 where r2: "fst (validateCollection e c name sch) = Inr r2"
    using validateCollection_returns by blast
  have d0: "\<forall>err. dirFailureOf e name = Some err \<longrightarrow> errors r2 = [err] \<and> \<not> isValid r2"
    using validateCollection_directory [OF _ r2] by blast
  have d: "\<not> existsSync e (contentPath e name) \<longrightarrow>
           errors r2 = [\<lparr>file = contentPath e name, field = None,
                         message = ''Collection directory not found: '' @ name,
                         severity = SevError\<rparr>]"
    using r2 by (auto simp: validateCollection_missing)
  have f: "\<forall>x. existsSync e (contentPath e name) \<and> readdirSync e (contentPath e name) = Inl x \<longrightarrow>
           errors r2 = [\<lparr>file = contentPath e name, field = None,
                         message = ''Failed to read collection directory: '' @ error_message x,
                         severity = SevError\<rparr>]"
    using r2 by (auto simp: validateCollection_unreadable)
  have g: "recordsFailures e c (collectionFiles e name) (errors r2)"
    using validateCollection_records [OF r2] .
  obtain r3 where r3: "fst (validateAllContent e c) = Inr r3"
    using validateAllContent_returns by blast
  have h: "recordsFailures e c (visitedFiles e) (errors r3)"
    using validateAllContent_records [OF r3] by blast
  have i0: "\<forall>dir err. dir \<in> set (map fst (collections e)) \<and> dirFailureOf e dir = Some err \<longrightarrow>
           err \<in> set (errors r3)"
    using validateAllContent_records [OF r3] by blast
  have i: "\<forall>dir err. dir \<in> set (map fst (collections e)) \<and> dirFailureOf e dir = Some err \<longrightarrow>
           err \<in> set (errors r3) \<and> \<not> isValid r3"
    using i0 validateAllContent_isValid [OF r3] by fastforce
  have one: "\<exists>r. fst (validateContentFile e c filePath sch contentType) = Inr r \<and>
        (\<forall>err. failureOf e c filePath contentType = Some err \<longrightarrow>
           err \<in> set (errors r) \<and> \<not> isValid r) \<and>
        (\<not> existsSync e filePath \<longrightarrow>
           errors r = [\<lparr>file = filePath, field = None,
                         message = contentType @ '' file not found'', severity = SevError\<rparr>]) \<and>
        (\<forall>x. existsSync e filePath \<and> readFileSync e filePath = Inl x \<longrightarrow>
           errors r = [parseFailure filePath x]) \<and>
        (\<forall>x fileContent. existsSync e filePath \<and> readFileSync e filePath = Inr fileContent \<and>
             fst (matter e c fileContent) = Inl x \<longrightarrow>
           errors r = [parseFailure filePath x])"
    using r1 a0 a b c by blast
  have two: "\<exists>r. fst (validateCollection e c name sch) = Inr r \<and>
        (\<forall>err. dirFailureOf e name = Some err \<longrightarrow> errors r = [err] \<and> \<not> isValid r) \<and>
        (\<not> existsSync e (contentPath e name) \<longrightarrow>
           errors r = [\<lparr>file = contentPath e name, field = None,
                         message = ''Collection directory not found: '' @ name,
                         severity = SevError\<rparr>]) \<and>
        (\<forall>x. existsSync e (contentPath e name) \<and> readdirSync e (contentPath e name) = Inl x \<longrightarrow>
           errors r = [\<lparr>file = contentPath e name, field = None,
                         message = ''Failed to read collection directory: '' @ error_message x,
                         severity = SevError\<rparr>]) \<and>
        recordsFailures e c (collectionFiles e name) (errors r)"
    using r2 d0 d f g by blast
  have three: "\<exists>r. fst (validateAllContent e c) = Inr r \<and>
        recordsFailures e c (visitedFiles e) (errors r) \<and>
        (\<forall>dir err. dir \<in> set (map fst (collections e)) \<and> dirFailureOf e dir = Some err \<longrightarrow>
           err \<in> set (errors r) \<and> \<not> isValid r)"
    using r3 h i by blast
  from one two three show ?thesis by blast
qed

text \<open>
  On the first site, with an empty cache: the project \<^verbatim>\<open>c.md\<close> cannot be read, and its
  entry is an error of its result; the education directory is not there, and its
  entry is the error of the collection and an error of the site; \<^verbatim>\<open>b.md\<close>, the fourth
  file that the run visits, has broken YAML, and its entry is an error of the site.
\<close>

theorem validator_never_throws_witness:
  "(\<exists>r. fst (validateContentFile demo_env Map.empty ''/site/src/content/projects/c.md''
              projectSchema ''projects'') = Inr r \<and>
        errors r = [parseFailure ''/site/src/content/projects/c.md''
                      (JsError ''EACCES: permission denied'')] \<and>
        \<not> isValid r) \<and>
   (\<exists>r. fst (validateCollection demo_env Map.empty ''education'' educationSchema) = Inr r \<and>
        errors r = [\<lparr>file = ''/site/src/content/education'', field = None,
                      message = ''Collection directory not found: education'',
                      severity = SevError\<rparr>] \<and>
        \<not> isValid r) \<and>
   (\<exists>r. fst (validateAllContent demo_env Map.empty) = Inr r \<and>
        \<lparr>file = ''/site/src/content/education'', field = None,
          message = ''Collection directory not found: education'', severity = SevError\<rparr>
          \<in> set (errors r) \<and>
        parseFailure ''/site/src/content/projects/b.md''
          (JsError ''bad indentation of a mapping entry'') \<in> set (errors r) \<and>
        \<not> isValid r)"
proof -
  note inst = validator_never_throws [of demo_env Map.empty "''/site/src/content/projects/c.md''"
      projectSchema "''projects''" "''education''"]
  note inst' = validator_never_throws [of demo_env Map.empty "''/site/src/content/projects/c.md''"
      educationSchema "''projects''" "''education''"]
  have one: "\<exists>r. fst (validateContentFile demo_env Map.empty ''/site/src/content/projects/c.md''
              projectSchema ''projects'') = Inr r \<and>
        errors r = [parseFailure ''/site/src/content/projects/c.md''
                      (JsError ''EACCES: permission denied'')] \<and>
        \<not> isValid r"
    using inst demo_failures(2,3) demo_failure_entries(1) by blast
  have two: "\<exists>r. fst (validateCollection demo_env Map.empty ''education'' educationSchema) = Inr r \<and>
        errors r = [\<lparr>file = ''/site/src/content/education'', field = None,
                      message = ''Collection directory not found: education'',
                      severity = SevError\<rparr>] \<and>
        \<not> isValid r"
    using inst' demo_failure_entries(2) by blast
  obtain r where r: "fst (validateAllContent demo_env Map.empty) = Inr r"
    "recordsFailures demo_env Map.empty (visitedFiles demo_env) (errors r)"
    "\<forall>dir err. dir \<in> set (map fst (collections demo_env)) \<and> dirFailureOf demo_env dir = Some err \<longrightarrow>
           err \<in> set (errors r) \<and> \<not> isValid r"
    using inst by blast
  have dir: "\<lparr>file = ''/site/src/content/education'', field = None,
          message = ''Collection directory not found: education'', severity = SevError\<rparr>
          \<in> set (errors r) \<and> \<not> isValid r"
    using r(3) demo_failure_entries(2,3) by blast
  have "recordsFailures demo_env Map.empty
          ([(''/site/src/content/profile/main.md'', ''profile''),
            (''/site/src/content/skills/main.md'', ''skills''),
            (''/site/src/content/projects/a.md'', ''projects'')] @
           [(''/site/src/content/projects/b.md'', ''projects''),
            (''/site/src/content/projects/c.md'', ''projects''),
            (''/site/src/content/experience/x.md'', ''experience'')]) (errors r)"
    using r(2) by (simp add: demo_failure_entries(4))
  then have "recordsFailures demo_env
               (cacheAfter demo_env Map.empty
                  [''/site/src/content/profile/main.md'', ''/site/src/content/skills/main.md'',
                   ''/site/src/content/projects/a.md''])
               [(''/site/src/content/projects/b.md'', ''projects''),
                (''/site/src/content/projects/c.md'', ''projects''),
                (''/site/src/content/experience/x.md'', ''experience'')] (errors r)"
    unfolding recordsFailures_append by simp
  then have b: "parseFailure ''/site/src/content/projects/b.md''
          (JsError ''bad indentation of a mapping entry'') \<in> set (errors r)"
    by (simp del: cacheAfter.simps add: demo_failure_entries(5))
  have three: "\<exists>r. fst (validateAllContent demo_env Map.empty) = Inr r \<and>
        \<lparr>file = ''/site/src/content/education'', field = None,
          message = ''Collection directory not found: education'', severity = SevError\<rparr>
          \<in> set (errors r) \<and>
        parseFailure ''/site/src/content/projects/b.md''
          (JsError ''bad indentation of a mapping entry'') \<in> set (errors r) \<and>
        \<not> isValid r"
    using r(1) dir b by blast
  from one two three show ?thesis by blast
qed

subsection \<open>Valid means no errors\<close>

text \<open>
  C9. The results of \<^verbatim>\<open>validateContentFile\<close>, \<^verbatim>\<open>validateCollection\<close> and
  \<^verbatim>\<open>validateAllContent\<close> are valid exactly when their list of errors is empty, and the
  errors and the warnings of \<^verbatim>\<open>validateAllContent\<close> are those of the profile, the
  skills and the four collections (projects, publications, experience, education),
  each validated with the cache as the one before left it, concatenated in this
  order.
\<close>

theorem validation_result_invariant:
  "(\<exists>r. fst (validateContentFile e c filePath sch contentType) = Inr r \<and>
        isValid r = (errors r = [])) \<and>
   (\<exists>r. fst (validateCollection e c name sch) = Inr r \<and> isValid r = (errors r = [])) \<and>
   (\<exists>p s c1 c2 c3 c4 k1 k2 k3 k4 k5 k6 r.
      validateProfile e c = (Inr p, k1) \<and> validateSkills e k1 = (Inr s, k2) \<and>
      validateCollection e k2 ''projects'' projectSchema = (Inr c1, k3) \<and>
      validateCollection e k3 ''publications'' (publicationSchema e) = (Inr c2, k4) \<and>
      validateCollection e k4 ''experience'' experienceSchema = (Inr c3, k5) \<and>
      validateCollection e k5 ''education'' educationSchema = (Inr c4, k6) \<and>
      validateAllContent e c = (Inr r, k6) \<and>
      isValid r = (errors r = []) \<and>
      errors r = errors p @ errors s @ errors c1 @ errors c2 @ errors c3 @ errors c4 \<and>
      warnings r = warnings p @ warnings s @ warnings c1 @ warnings c2 @ warnings c3 @ warnings c4)"
proof -
  have one: "\<exists>r. fst (validateContentFile e c filePath sch contentType) = Inr r \<and>
               isValid r = (errors r = [])"
    using validateContentFile_returns validateContentFile_isValid by blast
  have two: "\<exists>r. fst (validateCollection e c name sch) = Inr r \<and> isValid r = (errors r = [])"
    using validateCollection_returns validateCollection_isValid by blast
  obtain p s c1 c2 c3 c4 k1 k2 k3 k4 k5 k6 where parts:
    "validateProfile e c = (Inr p, k1)" "validateSkills e k1 = (Inr s, k2)"
    "validateCollection e k2 ''projects'' projectSchema = (Inr c1, k3)"
    "validateCollection e k3 ''publications'' (publicationSchema e) = (Inr c2, k4)"
    "validateCollection e k4 ''experience'' experienceSchema = (Inr c3, k5)"
    "validateCollection e k5 ''education'' educationSchema = (Inr c4, k6)"
    "validateAllContent e c =
       (Inr \<lparr>isValid = (errors p @ errors s @ errors c1 @ errors c2 @ errors c3 @ errors c4 = []),
             errors = errors p @ errors s @ errors c1 @ errors c2 @ errors c3 @ errors c4,
             warnings = warnings p @ warnings s @ warnings c1 @ warnings c2 @ warnings c3 @ warnings c4\<rparr>,
        k6)"
    using validateAllContent_parts [of e c] by blast
  have three: "\<exists>p s c1 c2 c3 c4 k1 k2 k3 k4 k5 k6 r.
      validateProfile e c = (Inr p, k1) \<and> validateSkills e k1 = (Inr s, k2) \<and>
      validateCollection e k2 ''projects'' projectSchema = (Inr c1, k3) \<and>
      validateCollection e k3 ''publications'' (publicationSchema e) = (Inr c2, k4) \<and>
      validateCollection e k4 ''experience'' experienceSchema = (Inr c3, k5) \<and>
      validateCollection e k5 ''education'' educationSchema = (Inr c4, k6) \<and>
      validateAllContent e c = (Inr r, k6) \<and>
      isValid r = (errors r = []) \<and>
      errors r = errors p @ errors s @ errors c1 @ errors c2 @ errors c3 @ errors c4 \<and>
      warnings r = warnings p @ warnings s @ warnings c1 @ warnings c2 @ warnings c3 @ warnings c4"
    apply (rule exI [of _ p], rule exI [of _ s], rule exI [of _ c1], rule exI [of _ c2],
        rule exI [of _ c3], rule exI [of _ c4], rule exI [of _ k1], rule exI [of _ k2],
        rule exI [of _ k3], rule exI [of _ k4], rule exI [of _ k5], rule exI [of _ k6])
    by (simp add: parts)
  from one two three show ?thesis by blast
qed

theorem validation_result_invariant_witness:
  "\<exists>r. fst (validateAllContent demo_env Map.empty) = Inr r \<and> \<not> isValid r \<and>
       length (errors r) = 3 \<and> length (warnings r) = 4"
  using validation_result_invariant [of demo_env Map.empty "''/site/src/content/projects/b.md''"
      projectSchema "''projects''" "''projects''"] demo_all
  by simp

subsection \<open>A file that fails to parse does not stop the others\<close>




subsection \<open>Empty collections\<close>

text \<open>
  C10. When the directory of a collection exists and its listing has no entry that
  ends in \<^verbatim>\<open>.md\<close> and does not start with a dot, \<^verbatim>\<open>validateCollection\<close> returns a
  valid result with no error and the single warning that no content files were
  found, and leaves the cache as it was. The entries that do not pass this filter do
  not matter: the result is the same as for the listing without them.
\<close>

theorem empty_collection_passes:
  assumes "existsSync e (contentPath e name)"
    and "readdirSync e (contentPath e name) = Inr entries"
  shows "(contentFiles entries = [] \<longrightarrow>
            validateCollection e c name sch =
              (Inr \<lparr>isValid = True, errors = [],
                    warnings = [\<lparr>file = contentPath e name, field = None,
                                  message = ''No content files found in '' @ name @ '' collection''\<rparr>]\<rparr>,
               c)) \<and>
         validateCollection
           (e\<lparr>readdirSync := (readdirSync e)(contentPath e name := Inr (contentFiles entries))\<rparr>)
           c name sch
         = validateCollection e c name sch"
proof -
  have "contentFiles entries = [] \<longrightarrow>
            validateCollection e c name sch =
              (Inr \<lparr>isValid = True, errors = [],
                    warnings = [\<lparr>file = contentPath e name, field = None,
                                  message = ''No content files found in '' @ name @ '' collection''\<rparr>]\<rparr>,
               c)"
    using assms by (simp add: validateCollection_def validateCollection_try_def Let_def)
  moreover have "validateCollection
           (e\<lparr>readdirSync := (readdirSync e)(contentPath e name := Inr (contentFiles entries))\<rparr>)
           c name sch
         = validateCollection e c name sch"
    using assms
    by (simp add: validateCollection_def validateCollection_try_def Let_def contentPath_def
        contentFiles_idem)
  ultimately show ?thesis by blast
qed

theorem empty_collection_passes_witness:
  "fst (validateCollection demo_env Map.empty ''publications'' (publicationSchema demo_env)) =
     Inr \<lparr>isValid = True, errors = [],
          warnings = [\<lparr>file = ''/site/src/content/publications'', field = None,
                        message = ''No content files found in publications collection''\<rparr>]\<rparr> \<and>
   validateCollection
     (demo_env\<lparr>readdirSync := (readdirSync demo_env)(''/site/src/content/publications'' := Inr [])\<rparr>)
     Map.empty ''publications'' (publicationSchema demo_env)
   = validateCollection demo_env Map.empty ''publications'' (publicationSchema demo_env)"
  using empty_collection_passes [OF demo_publications_dir(1,2), of Map.empty
      "publicationSchema demo_env"]
  by (simp add: demo_publications_dir(3,4))

subsection \<open>Short bodies in the batch\<close>

text \<open>
  C8. \<^verbatim>\<open>validateCollection\<close> hands the name of the collection to
  \<^verbatim>\<open>validateContentFile\<close> as the content type, and the length check compares the
  content type with \<^verbatim>\<open>project\<close> and \<^verbatim>\<open>publication\<close>, not with \<^verbatim>\<open>projects\<close> and
  \<^verbatim>\<open>publications\<close>. On the tidy site the project \<^verbatim>\<open>a.md\<close> has a body of six
  characters: validated as part of its collection, it gets the warning of the missing
  image and no warning of a short body; validated with the content type
  \<^verbatim>\<open>project\<close>, it gets both. The experience \<^verbatim>\<open>x.md\<close> of the same site, with a body of
  six characters, gets the warning of a short body as part of its collection, whose
  name is the content type that the check knows. Neither warning adds an error.
\<close>

theorem short_project_body_not_warned:
  "readFileSync tidy_env ''/site/src/content/projects/a.md'' = Inr ''A'' \<and>
   fst (matter tidy_env Map.empty ''A'') = Inr (demo_project, ''Short.'') \<and>
   length (trim ''Short.'') < 50 \<and>
   contentFiles [''a.md''] = [''a.md''] \<and>
   fst (validateCollection tidy_env Map.empty ''projects'' projectSchema) =
     Inr \<lparr>isValid = True, errors = [],
          warnings = [\<lparr>file = ''/site/src/content/projects/a.md'', field = Some ''image'',
                        message = ''Referenced image file not found: birds.png''\<rparr>]\<rparr> \<and>
   fst (validateContentFile tidy_env Map.empty ''/site/src/content/projects/a.md'' projectSchema
          ''projects'') =
     Inr \<lparr>isValid = True, errors = [],
          warnings = [\<lparr>file = ''/site/src/content/projects/a.md'', field = Some ''image'',
                        message = ''Referenced image file not found: birds.png''\<rparr>]\<rparr> \<and>
   fst (validateContentFile tidy_env Map.empty ''/site/src/content/projects/a.md'' projectSchema
          ''project'') =
     Inr \<lparr>isValid = True, errors = [],
          warnings = [shortContentWarning ''/site/src/content/projects/a.md'' ''project'',
                      \<lparr>file = ''/site/src/content/projects/a.md'', field = Some ''image'',
                        message = ''Referenced image file not found: birds.png''\<rparr>]\<rparr> \<and>
   fst (validateCollection tidy_env Map.empty ''experience'' experienceSchema) =
     Inr \<lparr>isValid = True, errors = [],
          warnings = [shortContentWarning ''/site/src/content/experience/x.md'' ''experience'']\<rparr>"
  by code_simp

section \<open>The completeness score\<close>

subsection \<open>The points of each section\<close>

lemma profile_section_total:
  "totalScore (fst (profile_section e c st)) =
     totalScore st + sectionPoints [10, 5, 3, 2] (profileChecks e c)"
  by (auto simp: profile_section_def profile_try_def profileScore_def profileChecks_def
      sectionPoints_def Let_def split: sum.splits prod.splits option.splits)

lemma profile_section_cache: "snd (profile_section e c st) = profileCache e c"
  by (auto simp: profile_section_def profile_try_def profileCache_def Let_def
      split: sum.splits prod.splits option.splits)

lemma skills_section_total:
  "totalScore (fst (skills_section e (profileCache e c) st)) =
     totalScore st + sectionPoints [10, 5] (skillsChecks e c)"
  by (auto simp: skills_section_def skills_try_def skillsScore_def skillsChecks_def
      sectionPoints_def Let_def split: sum.splits prod.splits option.splits)

lemma half_weight: "\<lfloor>real_of_int w * (5 / 10)\<rfloor> = w div 2"
proof -
  have "real_of_int w * (5 / 10) = real_of_int w / real_of_int 2" by simp
  then show ?thesis by (simp only: floor_divide_of_int_eq)
qed

lemma scoreCollection_total:
  assumes "scoreCollection e (name, weight, minFiles) st = Inr st'" and "0 < minFiles"
  shows "totalScore st' = totalScore st + collectionPoints weight minFiles (markdownCount e name)"
  using assms unfolding scoreCollection_def half_weight
  by (auto simp: markdownCount_def collectionPoints_def Let_def split: sum.splits if_splits)

lemma scoreCollection_returns:
  "(\<exists>st'. scoreCollection e (name, weight, minFiles) st = Inr st') \<longleftrightarrow>
   \<not> (existsSync e (contentPath e name) \<and> (\<exists>x. readdirSync e (contentPath e name) = Inl x))"
  by (auto simp: scoreCollection_def Let_def split: sum.splits if_splits)

lemma js_round_percent: "js_round ((real_of_int t / real_of_int maxScore) * 100) = t"
  by (simp add: js_round_def maxScore_def)

lemma completeness_sections:
  "validateContentCompleteness e c =
     (case scoreCollections e scoredCollections
             (fst (skills_section e (profileCache e c)
                (fst (profile_section e c \<lparr>sugg = [], completed = [], missing = [], totalScore = 0\<rparr>)))) of
        Inl x \<Rightarrow> Inl x
      | Inr st3 \<Rightarrow>
          Inr \<lparr>score = js_round ((real_of_int (totalScore st3) / real_of_int maxScore) * 100),
               suggestions = sugg st3,
               completedSections = completed st3,
               missingSections = missing st3\<rparr>,
      snd (skills_section e (profileCache e c)
             (fst (profile_section e c \<lparr>sugg = [], completed = [], missing = [], totalScore = 0\<rparr>))))"
proof -
  let ?st0 = "\<lparr>sugg = [], completed = [], missing = [], totalScore = 0\<rparr>"
  obtain st1 c1 where p: "profile_section e c ?st0 = (st1, c1)"
    by (cases "profile_section e c ?st0")
  have c1: "c1 = profileCache e c"
    using p profile_section_cache [of e c ?st0] by simp
  obtain st2 c2 where s: "skills_section e c1 st1 = (st2, c2)"
    by (cases "skills_section e c1 st1")
  show ?thesis
    using p s c1 by (simp add: validateContentCompleteness_def Let_def split: sum.splits)
qed

lemma completeness_score:
  assumes "fst (validateContentCompleteness e c) = Inr r"
  shows "score r =
           sectionPoints [10, 5, 3, 2] (profileChecks e c) + sectionPoints [10, 5] (skillsChecks e c)
           + collectionPoints 25 2 (markdownCount e ''projects'')
           + collectionPoints 20 1 (markdownCount e ''experience'')
           + collectionPoints 10 1 (markdownCount e ''publications'')
           + collectionPoints 10 1 (markdownCount e ''education'')"
proof -
  let ?st2 = "fst (skills_section e (profileCache e c)
                (fst (profile_section e c \<lparr>sugg = [], completed = [], missing = [], totalScore = 0\<rparr>)))"
  obtain st3 where st3: "scoreCollections e scoredCollections ?st2 = Inr st3"
    and r: "r = \<lparr>score = js_round ((real_of_int (totalScore st3) / real_of_int maxScore) * 100),
                   suggestions = sugg st3,
                   completedSections = completed st3,
                   missingSections = missing st3\<rparr>"
    using assms unfolding completeness_sections by (auto split: sum.splits)
  from st3 obtain q1 q2 q3 where
    a: "scoreCollection e (''projects'', 25, 2) ?st2 = Inr q1" and
    b: "scoreCollection e (''experience'', 20, 1) q1 = Inr q2" and
    c: "scoreCollection e (''publications'', 10, 1) q2 = Inr q3" and
    d: "scoreCollection e (''education'', 10, 1) q3 = Inr st3"
    by (auto simp: scoredCollections_def split: sum.splits)
  have "totalScore st3 =
          totalScore ?st2
           + collectionPoints 25 2 (markdownCount e ''projects'')
           + collectionPoints 20 1 (markdownCount e ''experience'')
           + collectionPoints 10 1 (markdownCount e ''publications'')
           + collectionPoints 10 1 (markdownCount e ''education'')"
    using scoreCollection_total [OF a] scoreCollection_total [OF b]
      scoreCollection_total [OF c] scoreCollection_total [OF d] by simp
  moreover have "totalScore ?st2 =
      sectionPoints [10, 5, 3, 2] (profileChecks e c) + sectionPoints [10, 5] (skillsChecks e c)"
    by (simp add: profile_section_total skills_section_total)
  moreover have "score r = totalScore st3"
    unfolding r by (simp only: CompletenessResult.simps js_round_percent)
  ultimately show ?thesis
    by (simp only:)
qed

lemma completeness_returns:
  "(\<exists>r. fst (validateContentCompleteness e c) = Inr r) \<longleftrightarrow>
   list_all (\<lambda>name. \<not> (existsSync e (contentPath e name) \<and>
                        (\<exists>x. readdirSync e (contentPath e name) = Inl x)))
     (map fst scoredCollections)"
proof -
  have step: "(\<exists>st'. scoreCollection e (name, weight, minFiles) st = Inr st') \<longleftrightarrow>
     \<not> (existsSync e (contentPath e name) \<and> (\<exists>x. readdirSync e (contentPath e name) = Inl x))"
    for name weight minFiles st
    by (rule scoreCollection_returns)
  have all: "(\<exists>st'. scoreCollections e cs st = Inr st') \<longleftrightarrow>
     list_all (\<lambda>name. \<not> (existsSync e (contentPath e name) \<and>
                        (\<exists>x. readdirSync e (contentPath e name) = Inl x))) (map fst cs)" for cs st
  proof (induction cs arbitrary: st)
    case Nil
    show ?case by simp
  next
    case (Cons c cs)
    obtain name weight minFiles where c: "c = (name, weight, minFiles)" by (cases c)
    show ?case
    proof (cases "scoreCollection e (name, weight, minFiles) st")
      case (Inl x)
      with step [of name weight minFiles st] show ?thesis by (simp add: c)
    next
      case (Inr st')
      with step [of name weight minFiles st] Cons.IH [of st'] show ?thesis by (simp add: c)
    qed
  qed
  let ?st2 = "fst (skills_section e (profileCache e c)
                (fst (profile_section e c \<lparr>sugg = [], completed = [], missing = [], totalScore = 0\<rparr>)))"
  have "(\<exists>r. fst (validateContentCompleteness e c) = Inr r) \<longleftrightarrow>
        (\<exists>st'. scoreCollections e scoredCollections ?st2 = Inr st')"
    unfolding completeness_sections
    by (cases "scoreCollections e scoredCollections ?st2") simp_all
  with all [of scoredCollections ?st2] show ?thesis by simp
qed

subsection \<open>Bounds and monotonicity of the points\<close>

lemma earned_bounds:
  "\<forall>w \<in> set ws. 0 \<le> w \<Longrightarrow> 0 \<le> earned ws cs \<and> earned ws cs \<le> sum_list ws"
  by (induction ws cs rule: earned.induct) (auto simp: sum_list_nonneg)

lemma sectionPoints_bounds:
  "\<forall>w \<in> set ws. 0 \<le> w \<Longrightarrow> 0 \<le> sectionPoints ws checks \<and> sectionPoints ws checks \<le> sum_list ws"
  using earned_bounds [of ws] by (auto simp: sectionPoints_def sum_list_nonneg split: option.splits)

lemma collectionPoints_bounds:
  "0 \<le> weight \<Longrightarrow> 0 \<le> collectionPoints weight minFiles n \<and> collectionPoints weight minFiles n \<le> weight"
  by (auto simp: collectionPoints_def)

lemma earned_mono:
  "list_all2 (\<lambda>c d. c \<longrightarrow> d) cs ds \<Longrightarrow> \<forall>w \<in> set ws. 0 \<le> w \<Longrightarrow>
   earned ws cs \<le> earned ws ds"
proof (induction ws cs arbitrary: ds rule: earned.induct)
  case (3 w ws c cs)
  then obtain d ds' where ds: "ds = d # ds'" "c \<longrightarrow> d" "list_all2 (\<lambda>c d. c \<longrightarrow> d) cs ds'"
    by (auto simp: list_all2_Cons1)
  with 3 have "earned ws cs \<le> earned ws ds'" by simp
  with ds 3(3) show ?case by auto
qed simp_all

lemma sectionPoints_mono:
  assumes "checksAtMost a b" and "\<forall>w \<in> set ws. 0 \<le> w"
  shows "sectionPoints ws a \<le> sectionPoints ws b"
proof (cases a)
  case None
  then show ?thesis using sectionPoints_bounds [OF assms(2), of b] by (simp add: sectionPoints_def)
next
  case (Some cs)
  with assms(1) obtain ds where "b = Some ds" "list_all2 (\<lambda>c d. c \<longrightarrow> d) cs ds"
    by (auto simp: checksAtMost_def split: option.splits)
  with Some earned_mono [OF _ assms(2)] show ?thesis by (simp add: sectionPoints_def)
qed

lemma collectionPoints_mono:
  "n \<le> n' \<Longrightarrow> 0 \<le> weight \<Longrightarrow>
   collectionPoints weight minFiles n \<le> collectionPoints weight minFiles n'"
  by (auto simp: collectionPoints_def)

lemma score_mono:
  assumes "fst (validateContentCompleteness a ca) = Inr ra"
    and "fst (validateContentCompleteness b cb) = Inr rb"
    and "atLeastAsComplete a ca b cb"
  shows "score ra \<le> score rb"
proof -
  have p: "sectionPoints [10, 5, 3, 2] (profileChecks a ca) \<le> sectionPoints [10, 5, 3, 2] (profileChecks b cb)"
    using assms(3) by (intro sectionPoints_mono) (simp_all add: atLeastAsComplete_def)
  have s: "sectionPoints [10, 5] (skillsChecks a ca) \<le> sectionPoints [10, 5] (skillsChecks b cb)"
    using assms(3) by (intro sectionPoints_mono) (simp_all add: atLeastAsComplete_def)
  have c: "markdownCount a ''projects'' \<le> markdownCount b ''projects''"
    "markdownCount a ''experience'' \<le> markdownCount b ''experience''"
    "markdownCount a ''publications'' \<le> markdownCount b ''publications''"
    "markdownCount a ''education'' \<le> markdownCount b ''education''"
    using assms(3) by (simp_all add: atLeastAsComplete_def scoredCollections_def)
  have "collectionPoints 25 2 (markdownCount a ''projects'') \<le> collectionPoints 25 2 (markdownCount b ''projects'')"
    "collectionPoints 20 1 (markdownCount a ''experience'') \<le> collectionPoints 20 1 (markdownCount b ''experience'')"
    "collectionPoints 10 1 (markdownCount a ''publications'') \<le> collectionPoints 10 1 (markdownCount b ''publications'')"
    "collectionPoints 10 1 (markdownCount a ''education'') \<le> collectionPoints 10 1 (markdownCount b ''education'')"
    using c by (simp_all add: collectionPoints_mono)
  with p s show ?thesis
    unfolding completeness_score [OF assms(1)] completeness_score [OF assms(2)] by linarith
qed

subsection \<open>One more entry in a directory\<close>

lemma js_ge_readdir [simp]: "js_ge (e\<lparr>readdirSync := f\<rparr>) v r = js_ge e v r"
  by (cases "(e, v, r)" rule: js_ge.cases) simp_all

lemma hasThreeSkills_readdir [simp]:
  "hasThreeSkills (e\<lparr>readdirSync := f\<rparr>) cat = hasThreeSkills e cat"
  by (simp add: hasThreeSkills_def split: sum.splits)

lemma some_hasThreeSkills_readdir [simp]:
  "some_hasThreeSkills (e\<lparr>readdirSync := f\<rparr>) cats = some_hasThreeSkills e cats"
  by (induction cats) (simp_all split: sum.splits)

lemma hasThreeCategories_readdir [simp]:
  "hasThreeCategories (e\<lparr>readdirSync := f\<rparr>) data = hasThreeCategories e data"
  by (simp add: hasThreeCategories_def split: sum.splits)

lemma hasSkilledCategory_readdir [simp]:
  "hasSkilledCategory (e\<lparr>readdirSync := f\<rparr>) data = hasSkilledCategory e data"
  by (simp add: hasSkilledCategory_def split: sum.splits yaml.splits)

lemma profileChecks_readdir [simp]: "profileChecks (e\<lparr>readdirSync := f\<rparr>) c = profileChecks e c"
  by (simp add: profileChecks_def profilePath_def split: sum.splits)

lemma profileCache_readdir [simp]: "profileCache (e\<lparr>readdirSync := f\<rparr>) c = profileCache e c"
  by (simp add: profileCache_def profilePath_def split: sum.splits)

lemma skillsChecks_readdir [simp]: "skillsChecks (e\<lparr>readdirSync := f\<rparr>) c = skillsChecks e c"
  by (simp add: skillsChecks_def skillsPath_def split: sum.splits prod.splits)

lemma checksAtMost_refl: "checksAtMost a a"
  by (auto simp: checksAtMost_def list_all2_same split: option.splits)

lemma markdownFiles_insert:
  "length (markdownFiles (pre @ post)) \<le> length (markdownFiles (pre @ f # post))"
  by (simp add: markdownFiles_def)

lemma markdownCount_addEntry:
  assumes "readdirSync e dir = Inr (pre @ post)"
  shows "markdownCount e name \<le> markdownCount (addEntry e dir pre f post) name"
  using assms markdownFiles_insert [of pre post f]
  by (auto simp: markdownCount_def addEntry_def contentPath_def)

lemma addEntry_atLeastAsComplete:
  assumes "readdirSync e dir = Inr (pre @ post)"
  shows "atLeastAsComplete e c (addEntry e dir pre f post) c"
proof -
  have "profileChecks (addEntry e dir pre f post) c = profileChecks e c"
    "skillsChecks (addEntry e dir pre f post) c = skillsChecks e c"
    by (simp_all add: addEntry_def)
  then show ?thesis
    using markdownCount_addEntry [OF assms]
    by (simp add: atLeastAsComplete_def checksAtMost_refl list_all_iff)
qed

lemma addEntry_returns:
  assumes "readdirSync e dir = Inr (pre @ post)"
    and "fst (validateContentCompleteness e c) = Inr r"
  shows "\<exists>r'. fst (validateContentCompleteness (addEntry e dir pre f post) c) = Inr r'"
proof -
  have "list_all (\<lambda>name. \<not> (existsSync e (contentPath e name) \<and>
                        (\<exists>x. readdirSync e (contentPath e name) = Inl x)))
     (map fst scoredCollections)"
    using assms(2) completeness_returns [of e c] by blast
  then have "list_all (\<lambda>name. \<not> (existsSync (addEntry e dir pre f post) (contentPath (addEntry e dir pre f post) name) \<and>
                        (\<exists>x. readdirSync (addEntry e dir pre f post) (contentPath (addEntry e dir pre f post) name) = Inl x)))
     (map fst scoredCollections)"
    by (auto simp: list_all_iff addEntry_def contentPath_def)
  then show ?thesis using completeness_returns [of "addEntry e dir pre f post" c] by blast
qed

subsection \<open>The first site, scored\<close>

lemma demo_completeness:
  "fst (validateContentCompleteness demo_env Map.empty) =
     Inr \<lparr>score = 63,
          suggestions =
            [''Add at least 3 skill categories with multiple skills each'',
             ''Add publications to showcase your research work'',
             ''Create education section to showcase your professional background''],
          completedSections = [''Profile'', ''Projects'', ''Experience''],
          missingSections = [''Skills'', ''Publications'', ''Education'']\<rparr>"
  by code_simp

lemma demo_long_body_completeness:
  "\<exists>r. fst (validateContentCompleteness demo_env_long_body Map.empty) = Inr r \<and> score r = 65"
proof -
  have "fst (validateContentCompleteness demo_env_long_body Map.empty) =
     Inr \<lparr>score = 65,
          suggestions =
            [''Add at least 3 skill categories with multiple skills each'',
             ''Add publications to showcase your research work'',
             ''Create education section to showcase your professional background''],
          completedSections = [''Profile'', ''Projects'', ''Experience''],
          missingSections = [''Skills'', ''Publications'', ''Education'']\<rparr>"
    by code_simp
  then show ?thesis by simp
qed

lemma demo_added_completeness:
  "fst (validateContentCompleteness
     (addEntry demo_env (contentPath demo_env ''publications'') [] ''paper.md'' [''README.txt''])
     Map.empty)
   = Inr \<lparr>score = 73,
          suggestions =
            [''Add at least 3 skill categories with multiple skills each'',
             ''Create education section to showcase your professional background''],
          completedSections = [''Profile'', ''Projects'', ''Experience'', ''Publications''],
          missingSections = [''Skills'', ''Education'']\<rparr>"
  by code_simp

lemma demo_checks:
  "profileChecks demo_env Map.empty = Some [True, True, True, False]"
  "skillsChecks demo_env Map.empty = Some [False, False]"
  "map (markdownCount demo_env) [''projects'', ''experience'', ''publications'', ''education'']
     = [4, 1, 0, 0]"
  "atLeastAsComplete demo_env Map.empty demo_env_long_body Map.empty"
  "''publications'' \<in> set (map fst scoredCollections)"
  "readdirSync demo_env (contentPath demo_env ''publications'') = Inr ([] @ [''README.txt''])"
  by code_simp+

subsection \<open>The score is a sum of fixed weights\<close>

text \<open>
  C7. Whenever \<^verbatim>\<open>validateContentCompleteness\<close> returns, the score is the sum of the
  points of the six sections: the weights 10, 5, 3 and 2 of the profile conditions
  that hold (at most 20), the weights 10 and 5 of the skills conditions that hold (at
  most 15), and for projects, experience, publications and education the weight 25,
  20, 10 and 10 when the collection has its minimum of files, half of it, rounded
  down, when it has some but fewer, and nothing otherwise. The score lies between 0
  and 100. The function returns unless the directory of a scored collection exists
  and cannot be listed. This holds with every state of the cache.
\<close>

theorem score_fixed_weight_sum:
  "(\<forall>r. fst (validateContentCompleteness e c) = Inr r \<longrightarrow>
      score r =
        sectionPoints [10, 5, 3, 2] (profileChecks e c) + sectionPoints [10, 5] (skillsChecks e c)
        + collectionPoints 25 2 (markdownCount e ''projects'')
        + collectionPoints 20 1 (markdownCount e ''experience'')
        + collectionPoints 10 1 (markdownCount e ''publications'')
        + collectionPoints 10 1 (markdownCount e ''education'') \<and>
      0 \<le> sectionPoints [10, 5, 3, 2] (profileChecks e c) \<and>
      sectionPoints [10, 5, 3, 2] (profileChecks e c) \<le> 20 \<and>
      0 \<le> sectionPoints [10, 5] (skillsChecks e c) \<and>
      sectionPoints [10, 5] (skillsChecks e c) \<le> 15 \<and>
      0 \<le> score r \<and> score r \<le> 100) \<and>
   ((\<exists>r. fst (validateContentCompleteness e c) = Inr r) \<longleftrightarrow>
      list_all (\<lambda>name. \<not> (existsSync e (contentPath e name) \<and>
                          (\<exists>x. readdirSync e (contentPath e name) = Inl x)))
        (map fst scoredCollections))"
proof -
  have p: "0 \<le> sectionPoints [10, 5, 3, 2] (profileChecks e c) \<and>
      sectionPoints [10, 5, 3, 2] (profileChecks e c) \<le> 20"
    using sectionPoints_bounds [of "[10, 5, 3, 2]" "profileChecks e c"] by simp
  have s: "0 \<le> sectionPoints [10, 5] (skillsChecks e c) \<and>
      sectionPoints [10, 5] (skillsChecks e c) \<le> 15"
    using sectionPoints_bounds [of "[10, 5]" "skillsChecks e c"] by simp
  have k: "0 \<le> collectionPoints 25 2 (markdownCount e ''projects'') \<and> collectionPoints 25 2 (markdownCount e ''projects'') \<le> 25"
    "0 \<le> collectionPoints 20 1 (markdownCount e ''experience'') \<and> collectionPoints 20 1 (markdownCount e ''experience'') \<le> 20"
    "0 \<le> collectionPoints 10 1 (markdownCount e ''publications'') \<and> collectionPoints 10 1 (markdownCount e ''publications'') \<le> 10"
    "0 \<le> collectionPoints 10 1 (markdownCount e ''education'') \<and> collectionPoints 10 1 (markdownCount e ''education'') \<le> 10"
    by (simp_all add: collectionPoints_bounds)
  have "score r =
        sectionPoints [10, 5, 3, 2] (profileChecks e c) + sectionPoints [10, 5] (skillsChecks e c)
        + collectionPoints 25 2 (markdownCount e ''projects'')
        + collectionPoints 20 1 (markdownCount e ''experience'')
        + collectionPoints 10 1 (markdownCount e ''publications'')
        + collectionPoints 10 1 (markdownCount e ''education'') \<and>
      0 \<le> sectionPoints [10, 5, 3, 2] (profileChecks e c) \<and>
      sectionPoints [10, 5, 3, 2] (profileChecks e c) \<le> 20 \<and>
      0 \<le> sectionPoints [10, 5] (skillsChecks e c) \<and>
      sectionPoints [10, 5] (skillsChecks e c) \<le> 15 \<and>
      0 \<le> score r \<and> score r \<le> 100"
    if "fst (validateContentCompleteness e c) = Inr r" for r
    using completeness_score [OF that] p s k by linarith
  then show ?thesis using completeness_returns [of e c] by blast
qed

theorem score_fixed_weight_sum_witness:
  "\<exists>r. fst (validateContentCompleteness demo_env Map.empty) = Inr r \<and>
       score r = 63 \<and>
       sectionPoints [10, 5, 3, 2] (profileChecks demo_env Map.empty) = 18 \<and>
       sectionPoints [10, 5] (skillsChecks demo_env Map.empty) = 0 \<and>
       collectionPoints 25 2 (markdownCount demo_env ''projects'') = 25 \<and>
       collectionPoints 20 1 (markdownCount demo_env ''experience'') = 20 \<and>
       collectionPoints 10 1 (markdownCount demo_env ''publications'') = 0 \<and>
       collectionPoints 10 1 (markdownCount demo_env ''education'') = 0 \<and>
       0 \<le> score r \<and> score r \<le> 100"
  using score_fixed_weight_sum [of demo_env Map.empty] demo_completeness demo_checks(1-3)
  by (simp add: sectionPoints_def collectionPoints_def)

subsection \<open>The score is monotonic\<close>

text \<open>
  C6, amended. If two sites are both scored and the second is at least as complete
  as the first, the score of the second is at least the score of the first. At
  least as complete means: every scored condition of the profile and of the skills
  that the function finds to hold in the first it finds to hold in the second, and
  no collection has fewer \<^verbatim>\<open>.md\<close> files; and a section of the second site whose
  evaluation raises is at least as complete only as a section of the first whose
  evaluation raises, because such a section earns no point at all. In particular,
  one more entry in the listing of the directory of a scored collection never
  lowers the score.
\<close>

theorem score_monotone:
  "(\<forall>ra rb. fst (validateContentCompleteness a ca) = Inr ra \<and>
            fst (validateContentCompleteness b cb) = Inr rb \<and>
            atLeastAsComplete a ca b cb \<longrightarrow> score ra \<le> score rb) \<and>
   (\<forall>name pre post f ra.
      name \<in> set (map fst scoredCollections) \<and>
      readdirSync a (contentPath a name) = Inr (pre @ post) \<and>
      fst (validateContentCompleteness a ca) = Inr ra \<longrightarrow>
      (\<exists>rb. fst (validateContentCompleteness (addEntry a (contentPath a name) pre f post) ca)
               = Inr rb \<and>
            score ra \<le> score rb))"
proof (intro conjI allI impI)
  fix ra rb
  assume "fst (validateContentCompleteness a ca) = Inr ra \<and>
            fst (validateContentCompleteness b cb) = Inr rb \<and>
            atLeastAsComplete a ca b cb"
  then show "score ra \<le> score rb" using score_mono by blast
next
  fix name pre post f ra
  assume h: "name \<in> set (map fst scoredCollections) \<and>
      readdirSync a (contentPath a name) = Inr (pre @ post) \<and>
      fst (validateContentCompleteness a ca) = Inr ra"
  then obtain rb where rb:
    "fst (validateContentCompleteness (addEntry a (contentPath a name) pre f post) ca) = Inr rb"
    using addEntry_returns by blast
  have "atLeastAsComplete a ca (addEntry a (contentPath a name) pre f post) ca"
    using h addEntry_atLeastAsComplete by blast
  with h rb have "score ra \<le> score rb" using score_mono by blast
  with rb show "\<exists>rb. fst (validateContentCompleteness (addEntry a (contentPath a name) pre f post) ca)
               = Inr rb \<and>
            score ra \<le> score rb" by blast
qed

text \<open>
  The first site scores 63; with a longer profile body it scores 65, and with one
  publication it scores 73.
\<close>

theorem score_monotone_witness:
  "(\<exists>ra rb. fst (validateContentCompleteness demo_env Map.empty) = Inr ra \<and>
            fst (validateContentCompleteness demo_env_long_body Map.empty) = Inr rb \<and>
            atLeastAsComplete demo_env Map.empty demo_env_long_body Map.empty \<and>
            score ra = 63 \<and> score rb = 65 \<and> score ra \<le> score rb) \<and>
   (\<exists>ra rb. fst (validateContentCompleteness demo_env Map.empty) = Inr ra \<and>
            fst (validateContentCompleteness
              (addEntry demo_env (contentPath demo_env ''publications'') [] ''paper.md''
                 [''README.txt'']) Map.empty) = Inr rb \<and>
            score ra = 63 \<and> score rb = 73 \<and> score ra \<le> score rb)"
  using score_monotone [of demo_env Map.empty demo_env_long_body Map.empty] demo_completeness
    demo_long_body_completeness demo_added_completeness demo_checks(4-6)
  by auto

text \<open>
  Not every scored condition that comes to hold raises the score. With two
  categories, one of them of three skills, the skills have no three categories and
  have a category of three skills, and the site scores 68. With a third category in
  front of them, an empty list item, the skills have three categories, so one more
  scored condition holds; the search for a category of three skills then raises on
  the empty item, the skills earn nothing, and the site scores 63.
\<close>

theorem third_category_lowers_score:
  "hasThreeCategories demo_env_two_categories two_categories = Inr False \<and>
   hasSkilledCategory demo_env_two_categories two_categories = Inr True \<and>
   hasThreeCategories demo_env_three_categories three_categories = Inr True \<and>
   hasSkilledCategory demo_env_three_categories three_categories =
     Inl (typeError_read ''null'' ''skills'') \<and>
   fst (validateContentCompleteness demo_env_two_categories Map.empty) =
     Inr \<lparr>score = 68,
          suggestions =
            [''Add at least 3 skill categories with multiple skills each'',
             ''Add publications to showcase your research work'',
             ''Create education section to showcase your professional background''],
          completedSections = [''Profile'', ''Projects'', ''Experience''],
          missingSections = [''Skills'', ''Publications'', ''Education'']\<rparr> \<and>
   fst (validateContentCompleteness demo_env_three_categories Map.empty) =
     Inr \<lparr>score = 63,
          suggestions =
            [''Create a skills section with categorized technical skills'',
             ''Add publications to showcase your research work'',
             ''Create education section to showcase your professional background''],
          completedSections = [''Profile'', ''Projects'', ''Experience''],
          missingSections = [''Skills'', ''Publications'', ''Education'']\<rparr>"
  by code_simp

section \<open>The command line\<close>

lemma getContentCounts_fails:
  "getContentCounts e dirs = Inl x \<Longrightarrow>
   \<exists>dir \<in> set dirs. existsSync e (contentPath e dir) \<and> readdirSync e (contentPath e dir) = Inl x"
proof (induction dirs)
  case Nil
  then show ?case by simp
next
  case (Cons dir dirs)
  then show ?case
    by (auto simp: Let_def split: sum.splits if_splits)
qed

lemma summary_failure_is_error:
  assumes "printContentSummary e = Inl x" and "fst (validateAllContent e c) = Inr r"
  shows "errors r \<noteq> []"
proof -
  obtain dir where dir: "dir \<in> set contentDirs" "existsSync e (contentPath e dir)"
    "readdirSync e (contentPath e dir) = Inl x"
    using assms(1) getContentCounts_fails [of e contentDirs x]
    by (auto simp: printContentSummary_def split: sum.splits)
  have bad: "\<exists>r'. fst (validateCollection e k dir sch) = Inr r' \<and> errors r' \<noteq> []" for sch k
    using validateCollection_unreadable [OF dir(2,3)] by simp
  obtain p s c1 c2 c3 c4 k1 k2 k3 k4 k5 k6 where
    ps: "validateProfile e c = (Inr p, k1)" "validateSkills e k1 = (Inr s, k2)" and
    parts:
    "validateCollection e k2 ''projects'' projectSchema = (Inr c1, k3)"
    "validateCollection e k3 ''publications'' (publicationSchema e) = (Inr c2, k4)"
    "validateCollection e k4 ''experience'' experienceSchema = (Inr c3, k5)"
    "validateCollection e k5 ''education'' educationSchema = (Inr c4, k6)"
    "validateAllContent e c =
       (Inr \<lparr>isValid = (errors p @ errors s @ errors c1 @ errors c2 @ errors c3 @ errors c4 = []),
             errors = errors p @ errors s @ errors c1 @ errors c2 @ errors c3 @ errors c4,
             warnings = warnings p @ warnings s @ warnings c1 @ warnings c2 @ warnings c3 @ warnings c4\<rparr>,
        k6)"
    using validateAllContent_parts [of e c] by blast
  have "errors c1 \<noteq> [] \<or> errors c2 \<noteq> [] \<or> errors c3 \<noteq> [] \<or> errors c4 \<noteq> []"
    using dir(1) parts(1-4) bad [of k2 projectSchema] bad [of k3 "publicationSchema e"]
      bad [of k4 experienceSchema] bad [of k5 educationSchema]
    by (auto simp: contentDirs_def)
  with parts(5) assms(2) show ?thesis by auto
qed

lemma validationFails_iff:
  "fst (validateAllContent e c) = Inr r \<Longrightarrow> validationFails e c \<longleftrightarrow> errors r \<noteq> []"
  using summary_failure_is_error [of e _ c r] validateAllContent_isValid [of e c r]
  by (auto simp: validationFails_def split: sum.splits)

lemma runValidation_once:
  "fst (runValidation False e c) = (if validationFails e c then ProcessExit 1 else Returned True)"
  by (cases "validateAllContent e c")
    (simp add: runValidation_def validationFails_def split: sum.splits)

lemma runValidation_watch:
  "runValidation True e c = (Returned (\<not> validationFails e c), cacheAfterRun e c)"
  by (cases "validateAllContent e c")
    (simp add: runValidation_def validationFails_def cacheAfterRun_def split: sum.splits)

lemma runs_watch: "runs True ws sofar c = Alive (sofar @ runResults ws c)"
  by (induction ws arbitrary: sofar c) (simp_all add: runValidation_watch)

lemma demo_runs:
  "validationFails demo_env Map.empty" "\<not> validationFails tidy_env Map.empty"
  "\<not> isWatchMode []" "isWatchMode [''--watch'']"
  "fsWatch demo_env (path_join demo_env [cwd demo_env, ''src/content'']) = Inr ()"
  "runResults
     (demo_env # map snd (filter triggers
        [(Some ''projects/b.md'', tidy_env), (None, demo_env), (Some ''notes.txt'', demo_env)]))
     Map.empty
   = [False, True]"
  "fsWatch bare_env (path_join bare_env [cwd bare_env, ''src/content'']) =
     Inl (JsError ''ENOENT: no such file or directory, watch'')"
  by code_simp+

subsection \<open>Errors fail the batch, warnings do not\<close>

text \<open>
  C2. The result of \<^verbatim>\<open>validateAllContent\<close> is valid exactly when it has no errors,
  whatever its warnings, and without \<^verbatim>\<open>--watch\<close> \<^verbatim>\<open>runValidation\<close> exits with
  status 1 exactly when that list of errors is not empty, and returns \<^verbatim>\<open>true\<close>
  exactly when it is empty. This holds with every state of the cache.
\<close>

theorem severity_semantics:
  "\<exists>r. fst (validateAllContent e c) = Inr r \<and>
       (isValid r \<longleftrightarrow> errors r = []) \<and>
       (fst (runValidation False e c) = ProcessExit 1 \<longleftrightarrow> errors r \<noteq> []) \<and>
       (fst (runValidation False e c) = Returned True \<longleftrightarrow> errors r = [])"
proof -
  obtain r where r: "fst (validateAllContent e c) = Inr r"
    using validateAllContent_returns by blast
  have "isValid r \<longleftrightarrow> errors r = []"
    using validateAllContent_isValid [OF r] by simp
  moreover have "fst (runValidation False e c) = ProcessExit 1 \<longleftrightarrow> errors r \<noteq> []"
    using validationFails_iff [OF r] by (simp add: runValidation_once)
  moreover have "fst (runValidation False e c) = Returned True \<longleftrightarrow> errors r = []"
    using validationFails_iff [OF r] by (simp add: runValidation_once)
  ultimately show ?thesis using r by blast
qed

text \<open>
  The tidy site has four warnings and no error, and passes; the first site has
  three errors, and the script exits with status 1.
\<close>

theorem severity_semantics_witness:
  "(\<exists>r. fst (validateAllContent tidy_env Map.empty) = Inr r \<and> errors r = [] \<and>
        length (warnings r) = 4 \<and> isValid r \<and>
        fst (runValidation False tidy_env Map.empty) = Returned True) \<and>
   (\<exists>r. fst (validateAllContent demo_env Map.empty) = Inr r \<and> length (errors r) = 3 \<and>
        \<not> isValid r \<and> fst (runValidation False demo_env Map.empty) = ProcessExit 1)"
  using severity_semantics [of tidy_env Map.empty] severity_semantics [of demo_env Map.empty]
    tidy_all demo_all
  by auto

subsection \<open>How the script ends\<close>

text \<open>
  C5, amended. Without \<^verbatim>\<open>--watch\<close> the script exits with status 1 when the validation
  fails or the script itself raises, and with status 0 otherwise. With \<^verbatim>\<open>--watch\<close>
  the script validates once, whether the validation fails or not, and then installs
  the watcher on the content directory.

  \<^item> If \<^verbatim>\<open>fs.watch\<close> raises, as it does when the content directory is not there, the
    process exits with status 1.
  \<^item> If the watcher is installed, the process does not exit: it validates once more
    for each change event whose file name ends in \<^verbatim>\<open>.md\<close>, whether the validations
    fail or not, each with the cache as the one before left it.
\<close>

theorem cli_exit_behaviour:
  "(\<not> isWatchMode argv \<longrightarrow>
      (validationFails e Map.empty \<longrightarrow> main argv e events = Exited 1) \<and>
      (\<not> validationFails e Map.empty \<longrightarrow> main argv e events = Exited 0)) \<and>
   (isWatchMode argv \<longrightarrow>
      (\<forall>x. fsWatch e (path_join e [cwd e, ''src/content'']) = Inl x \<longrightarrow>
         main argv e events = Exited 1) \<and>
      (fsWatch e (path_join e [cwd e, ''src/content'']) = Inr () \<longrightarrow>
         main argv e events =
           Alive (runResults (e # map snd (filter triggers events)) Map.empty)))"
proof -
  have once: "\<not> isWatchMode argv \<Longrightarrow>
      main argv e events = (if validationFails e Map.empty then Exited 1 else Exited 0)"
    using runValidation_once [of e Map.empty]
    by (cases "runValidation False e Map.empty") (auto simp: main_def)
  have watch: "isWatchMode argv \<Longrightarrow>
      main argv e events =
        (case fsWatch e (path_join e [cwd e, ''src/content'']) of
           Inl x \<Rightarrow> Exited 1
         | Inr u \<Rightarrow> Alive (runResults (e # map snd (filter triggers events)) Map.empty))"
    by (simp add: main_def watchContent_def runs_watch runValidation_watch Let_def
        split: sum.splits)
  show ?thesis
    using once watch by simp
qed

text \<open>
  The first site fails and the tidy site passes. Watching the first site, with a
  change to a project after which the site is tidy, a change without a file name
  and a change to a text file, the script validates twice and stays. Watching a
  working directory without the content directory, it exits with status 1.
\<close>

theorem cli_exit_behaviour_witness:
  "main [] demo_env [] = Exited 1 \<and>
   main [] tidy_env [] = Exited 0 \<and>
   main [''--watch''] demo_env
     [(Some ''projects/b.md'', tidy_env), (None, demo_env), (Some ''notes.txt'', demo_env)]
   = Alive [False, True] \<and>
   main [''--watch''] bare_env [] = Exited 1"
  using cli_exit_behaviour [of "[]" demo_env "[]"] cli_exit_behaviour [of "[]" tidy_env "[]"]
    cli_exit_behaviour [of "[''--watch'']" demo_env
      "[(Some ''projects/b.md'', tidy_env), (None, demo_env), (Some ''notes.txt'', demo_env)]"]
    cli_exit_behaviour [of "[''--watch'']" bare_env "[]"]
    demo_runs
  by simp

text \<open>
  A failing validation under \<^verbatim>\<open>--watch\<close> can be the end of the process. In a
  working directory without the content directory the validation fails and returns
  \<^verbatim>\<open>false\<close>, and the process then exits with status 1.
\<close>

theorem watch_without_content_exits:
  "isWatchMode [''--watch''] \<and>
   validationFails bare_env Map.empty \<and>
   fst (runValidation True bare_env Map.empty) = Returned False \<and>
   main [''--watch''] bare_env [] = Exited 1"
  by code_simp

end
